theory Spec2Isabelle
  imports Complex_Main
begin

section \<open>Tensor values\<close>

text \<open>
  The notebook computes with float32 tensors. A tensor element is modelled as a real
  number or one of the three special values of IEEE arithmetic. The operations of this
  section are those of exact arithmetic on finite values: they neither round nor
  overflow, and the two signed zeros are one value (a quotient by zero takes the sign of
  its numerator). The special values combine as IEEE prescribes: NaN is absorbing,
  \<open>inf - inf\<close>, \<open>0 * inf\<close>, \<open>0 / 0\<close> and \<open>inf / inf\<close> are NaN. The overflow of float32 is
  added in the next section, and the rounding of the reference solution where the
  accuracy report is defined.
\<close>

datatype tval = Fin real | PInf | NInf | NaN

fun tneg :: "tval \<Rightarrow> tval" where
  "tneg (Fin a) = Fin (- a)"
| "tneg PInf = NInf"
| "tneg NInf = PInf"
| "tneg NaN = NaN"

fun tadd :: "tval \<Rightarrow> tval \<Rightarrow> tval" where
  "tadd NaN _ = NaN"
| "tadd _ NaN = NaN"
| "tadd (Fin a) (Fin b) = Fin (a + b)"
| "tadd PInf NInf = NaN"
| "tadd NInf PInf = NaN"
| "tadd PInf _ = PInf"
| "tadd _ PInf = PInf"
| "tadd NInf _ = NInf"
| "tadd _ NInf = NInf"

definition tsub :: "tval \<Rightarrow> tval \<Rightarrow> tval" where
  "tsub a b = tadd a (tneg b)"

fun tmul :: "tval \<Rightarrow> tval \<Rightarrow> tval" where
  "tmul NaN _ = NaN"
| "tmul _ NaN = NaN"
| "tmul (Fin a) (Fin b) = Fin (a * b)"
| "tmul (Fin a) PInf = (if a = 0 then NaN else if 0 < a then PInf else NInf)"
| "tmul (Fin a) NInf = (if a = 0 then NaN else if 0 < a then NInf else PInf)"
| "tmul PInf (Fin b) = (if b = 0 then NaN else if 0 < b then PInf else NInf)"
| "tmul NInf (Fin b) = (if b = 0 then NaN else if 0 < b then NInf else PInf)"
| "tmul PInf PInf = PInf"
| "tmul PInf NInf = NInf"
| "tmul NInf PInf = NInf"
| "tmul NInf NInf = PInf"

fun tdiv :: "tval \<Rightarrow> tval \<Rightarrow> tval" where
  "tdiv NaN _ = NaN"
| "tdiv _ NaN = NaN"
| "tdiv (Fin a) (Fin b) =
     (if b = 0 then (if a = 0 then NaN else if 0 < a then PInf else NInf)
      else Fin (a / b))"
| "tdiv (Fin a) _ = Fin 0"
| "tdiv PInf (Fin b) = (if 0 \<le> b then PInf else NInf)"
| "tdiv NInf (Fin b) = (if 0 \<le> b then NInf else PInf)"
| "tdiv _ _ = NaN"

text \<open>\<open>v ** 2\<close> on a tensor element.\<close>

definition tsquare :: "tval \<Rightarrow> tval" where
  "tsquare v = tmul v v"

fun tabs :: "tval \<Rightarrow> tval" where
  "tabs (Fin a) = Fin \<bar>a\<bar>"
| "tabs PInf = PInf"
| "tabs NInf = PInf"
| "tabs NaN = NaN"

fun tsqrt :: "tval \<Rightarrow> tval" where
  "tsqrt (Fin a) = (if a < 0 then NaN else Fin (sqrt a))"
| "tsqrt PInf = PInf"
| "tsqrt NInf = NaN"
| "tsqrt NaN = NaN"

text \<open>Comparison \<open>a < b\<close>: false whenever an operand is NaN.\<close>

fun tless :: "tval \<Rightarrow> tval \<Rightarrow> bool" where
  "tless NaN _ = False"
| "tless _ NaN = False"
| "tless (Fin a) (Fin b) = (a < b)"
| "tless _ NInf = False"
| "tless PInf _ = False"
| "tless NInf _ = True"
| "tless (Fin a) PInf = True"

text \<open>\<open>torch.isnan\<close> on a scalar.\<close>

fun isnan :: "tval \<Rightarrow> bool" where
  "isnan NaN = True"
| "isnan _ = False"

fun is_fin :: "tval \<Rightarrow> bool" where
  "is_fin (Fin a) = True"
| "is_fin _ = False"

fun fin_val :: "tval \<Rightarrow> real" where
  "fin_val (Fin a) = a"
| "fin_val _ = 0"

primrec tsum :: "tval list \<Rightarrow> tval" where
  "tsum [] = Fin 0"
| "tsum (v # vs) = tadd v (tsum vs)"

text \<open>
  \<open>torch.mean\<close> over all elements of a tensor: the sum divided by the number of
  elements. On an empty tensor it is \<open>0 / 0\<close>, which is NaN.
\<close>

definition tmean :: "tval list \<Rightarrow> tval" where
  "tmean vs = tdiv (tsum vs) (Fin (real (length vs)))"

text \<open>
  An elementwise binary operation on two tensors of the same shape is \<open>map2\<close> of the
  list library.
\<close>

definition zeros_like :: "real list \<Rightarrow> real list" where
  "zeros_like xs = map (\<lambda>_. 0) xs"

definition ones_like :: "real list \<Rightarrow> real list" where
  "ones_like xs = map (\<lambda>_. 1) xs"

section \<open>The range of float32\<close>










section \<open>The approximator and the batch\<close>

text \<open>
  A batch tensor of shape \<open>(N, 1)\<close>: its \<open>N\<close> finite coordinates and the
  \<open>requires_grad\<close> flag, which the evaluator writes.
\<close>

record tensor =
  vals :: "real list"
  requires_grad :: bool

text \<open>
  The approximator as the residual evaluator sees it, at its current parameters: the
  forward pass \<open>model(x, t)\<close> and what \<open>torch.autograd.grad\<close> returns for the first
  and second derivatives of the output with respect to \<open>t\<close> and to \<open>x\<close>. The model acts
  row by row, so each is a function of one sample point. The network architecture and
  the automatic differentiation engine are outside the embedding; whether the fields of
  a given approximator are the derivatives of its forward pass is stated where a claim
  needs it.
\<close>

record approximator =
  forward :: "real \<Rightarrow> real \<Rightarrow> tval"
  d_dt :: "real \<Rightarrow> real \<Rightarrow> tval"
  d2_dt2 :: "real \<Rightarrow> real \<Rightarrow> tval"
  d_dx :: "real \<Rightarrow> real \<Rightarrow> tval"
  d2_dx2 :: "real \<Rightarrow> real \<Rightarrow> tval"

datatype error = RuntimeError

text \<open>
  \<open>model(x, t)\<close> concatenates its arguments along dimension 1, which raises when the
  two tensors do not have the same number of rows.
\<close>

definition model_call :: "approximator \<Rightarrow> real list \<Rightarrow> real list \<Rightarrow> error + tval list" where
  "model_call m xs ts =
     (if length xs \<noteq> length ts then Inl RuntimeError else Inr (map2 (forward m) xs ts))"

section \<open>The residual evaluator\<close>

text \<open>
  The four terms of \<open>wave_pinn_loss\<close>, each on the coordinates it reads. \<open>c\<close> is the
  wave speed, a global of the notebook (set to \<open>1.0\<close>).
\<close>

definition physics_loss :: "approximator \<Rightarrow> real \<Rightarrow> real list \<Rightarrow> real list \<Rightarrow> tval" where
  "physics_loss m c xs ts =
     (let u_tt = map2 (d2_dt2 m) xs ts;
          u_xx = map2 (d2_dx2 m) xs ts
      in tmean (map tsquare (map2 tsub u_tt (map (tmul (Fin (c ^ 2))) u_xx))))"

definition initial_loss :: "approximator \<Rightarrow> real list \<Rightarrow> tval" where
  "initial_loss m xs =
     (let t_zeros = zeros_like xs;
          u0 = map2 (forward m) xs t_zeros
      in tmean (map tsquare (map2 tsub u0 (map (\<lambda>x. Fin (sin (pi * x))) xs))))"

definition velocity_loss :: "approximator \<Rightarrow> real list \<Rightarrow> tval" where
  "velocity_loss m xs =
     (let t_zeros = zeros_like xs;
          u_t0 = map2 (d_dt m) xs t_zeros
      in tmean (map (\<lambda>v. tadd (tsquare v) (Fin (1 / 10 ^ 6))) u_t0))"

definition boundary_loss :: "approximator \<Rightarrow> real list \<Rightarrow> tval" where
  "boundary_loss m ts =
     (let u_left = map2 (forward m) (zeros_like ts) ts;
          u_right = map2 (forward m) (ones_like ts) ts
      in tadd (tmean (map tsquare u_left)) (tmean (map tsquare u_right)))"

definition total_loss :: "approximator \<Rightarrow> real \<Rightarrow> real list \<Rightarrow> real list \<Rightarrow> tval" where
  "total_loss m c xs ts =
     tadd (tadd (tadd (physics_loss m c xs ts) (initial_loss m xs)) (velocity_loss m xs))
          (boundary_loss m ts)"

text \<open>
  \<open>wave_pinn_loss(model, x, t)\<close>. It first sets \<open>requires_grad\<close> on the caller's two
  tensors, then calls the model on them (the call that raises on a shape mismatch; the
  later calls pair tensors of one length by construction). The result is the total loss,
  or the exception raised, together with the two tensors as the call leaves them.
  \<open>torch.autograd.grad\<close> returns the derivatives without accumulating into any \<open>.grad\<close>
  field, so the approximator is not part of the result.
\<close>

definition wave_pinn_loss ::
  "approximator \<Rightarrow> real \<Rightarrow> tensor \<Rightarrow> tensor \<Rightarrow> (error + tval) \<times> tensor \<times> tensor" where
  "wave_pinn_loss m c x t =
     (let x = x\<lparr>requires_grad := True\<rparr>;
          t = t\<lparr>requires_grad := True\<rparr>
      in (case model_call m (vals x) (vals t) of
            Inl e \<Rightarrow> Inl e
          | Inr u \<Rightarrow> Inr (total_loss m c (vals x) (vals t)),
          x, t))"







text \<open>
  The same formula in the words of the specification: each term is a mean over the
  \<open>N\<close> sample points, indexed by the position in the batch, and the terms are added
  with no weights.
\<close>

definition mean_over :: "nat \<Rightarrow> (nat \<Rightarrow> tval) \<Rightarrow> tval" where
  "mean_over n f = tdiv (tsum (map f [0..<n])) (Fin (real n))"

definition composite_loss_spec :: "approximator \<Rightarrow> real \<Rightarrow> real list \<Rightarrow> real list \<Rightarrow> tval" where
  "composite_loss_spec m c xs ts =
     (let n = length xs;
          physics = mean_over n (\<lambda>i. tsquare (tsub (d2_dt2 m (xs ! i) (ts ! i))
                                              (tmul (Fin (c ^ 2)) (d2_dx2 m (xs ! i) (ts ! i)))));
          initial = mean_over n (\<lambda>i. tsquare (tsub (forward m (xs ! i) 0) (Fin (sin (pi * xs ! i)))));
          velocity = mean_over n (\<lambda>i. tadd (tsquare (d_dt m (xs ! i) 0)) (Fin (1 / 10 ^ 6)));
          boundary = tadd (mean_over n (\<lambda>i. tsquare (forward m 0 (ts ! i))))
                          (mean_over n (\<lambda>i. tsquare (forward m 1 (ts ! i))))
      in tadd (tadd (tadd physics initial) velocity) boundary)"

text \<open>
  The same formula once more, in real arithmetic, for an approximator whose values at
  the points of the batch are finite.
\<close>

definition composite_loss_real :: "approximator \<Rightarrow> real \<Rightarrow> real list \<Rightarrow> real list \<Rightarrow> real" where
  "composite_loss_real m c xs ts =
     (let n = length xs in
        (\<Sum>i<n. (fin_val (d2_dt2 m (xs ! i) (ts ! i)) - c ^ 2 * fin_val (d2_dx2 m (xs ! i) (ts ! i))) ^ 2) / real n
      + (\<Sum>i<n. (fin_val (forward m (xs ! i) 0) - sin (pi * xs ! i)) ^ 2) / real n
      + (\<Sum>i<n. (fin_val (d_dt m (xs ! i) 0)) ^ 2 + 1 / 10 ^ 6) / real n
      + ((\<Sum>i<n. (fin_val (forward m 0 (ts ! i))) ^ 2) / real n
         + (\<Sum>i<n. (fin_val (forward m 1 (ts ! i))) ^ 2) / real n))"

text \<open>
  The approximator's output and its first and second derivatives are finite wherever the
  evaluator reads them: at the sample points, at \<open>t = 0\<close> and at the two boundaries.
\<close>

definition finite_on :: "approximator \<Rightarrow> real list \<Rightarrow> real list \<Rightarrow> bool" where
  "finite_on m xs ts \<longleftrightarrow>
     list_all (\<lambda>(x, t). is_fin (forward m x t) \<and> is_fin (d_dt m x t) \<and> is_fin (d2_dt2 m x t)
                        \<and> is_fin (d_dx m x t) \<and> is_fin (d2_dx2 m x t)) (zip xs ts)
     \<and> list_all (\<lambda>x. is_fin (forward m x 0) \<and> is_fin (d_dt m x 0)) xs
     \<and> list_all (\<lambda>t. is_fin (forward m 0 t) \<and> is_fin (forward m 1 t)) ts"

text \<open>A value that is not below \<open>lo\<close>: a real that is at least \<open>lo\<close>, \<open>+inf\<close> or NaN.\<close>

fun not_below :: "real \<Rightarrow> tval \<Rightarrow> bool" where
  "not_below lo (Fin a) = (lo \<le> a)"
| "not_below lo PInf = True"
| "not_below lo NaN = True"
| "not_below lo NInf = False"

text \<open>A value that is not finite and not \<open>-inf\<close>: \<open>+inf\<close> or NaN.\<close>

fun inf_or_nan :: "tval \<Rightarrow> bool" where
  "inf_or_nan PInf = True"
| "inf_or_nan NaN = True"
| "inf_or_nan _ = False"



section \<open>The exact solution and the accuracy report\<close>

text \<open>\<open>exact_solution(x, t)\<close>, at one point.\<close>

definition exact_solution :: "real \<Rightarrow> real \<Rightarrow> real \<Rightarrow> real" where
  "exact_solution c x t = sin (pi * x) * cos (c * pi * t)"

text \<open>
  The exact solution put in the place of the trained approximator: the forward pass is
  \<open>exact_solution\<close> and the derivative fields are its partial derivatives in closed
  form.
\<close>

definition exact_model :: "real \<Rightarrow> approximator" where
  "exact_model c =
     \<lparr> forward = (\<lambda>x t. Fin (exact_solution c x t)),
       d_dt = (\<lambda>x t. Fin (- (c * pi) * sin (pi * x) * sin (c * pi * t))),
       d2_dt2 = (\<lambda>x t. Fin (- ((c * pi) ^ 2) * sin (pi * x) * cos (c * pi * t))),
       d_dx = (\<lambda>x t. Fin (pi * cos (pi * x) * cos (c * pi * t))),
       d2_dx2 = (\<lambda>x t. Fin (- (pi ^ 2) * sin (pi * x) * cos (c * pi * t))) \<rparr>"

text \<open>
  \<open>exact_solution(x, t)\<close> as the notebook computes it on float32 tensors: every
  operation rounds its result, and \<open>np.pi\<close> is a floating-point number near \<open>pi\<close>, not
  \<open>pi\<close>. The rounding function and the value of \<open>np.pi\<close> belong to the arithmetic of
  the machine and are taken as parameters. With the identity for the rounding and \<open>pi\<close>
  for \<open>np.pi\<close> this is \<open>exact_solution\<close>; with the rounding of float32 it is not zero
  at \<open>x = 1\<close>, since \<open>sin\<close> is not taken at \<open>pi\<close>.
\<close>

record float_env =
  rnd :: "real \<Rightarrow> real"
  np_pi :: real

definition exact_solution_f32 :: "float_env \<Rightarrow> real \<Rightarrow> real \<Rightarrow> real \<Rightarrow> real" where
  "exact_solution_f32 fp c x t =
     rnd fp (rnd fp (sin (rnd fp (np_pi fp * x))) * rnd fp (cos (rnd fp (c * np_pi fp * t))))"

definition exact_env :: float_env where
  "exact_env = \<lparr> rnd = (\<lambda>r. r), np_pi = pi \<rparr>"

text \<open>
  \<open>calculate_accuracy(model, x_test, t_test)\<close>: the mean squared error and the relative
  error in percent. The quotient by the reference solution is taken with no check of the
  denominator. The reference solution is the computed one; the operations after it are
  those of exact arithmetic with the special values.
\<close>

definition calculate_accuracy ::
  "float_env \<Rightarrow> approximator \<Rightarrow> real \<Rightarrow> real list \<Rightarrow> real list \<Rightarrow> error + (tval \<times> tval)" where
  "calculate_accuracy fp m c x_test t_test =
     (case model_call m x_test t_test of
        Inl e \<Rightarrow> Inl e
      | Inr u_pred \<Rightarrow>
          let u_exact = map2 (\<lambda>x t. Fin (exact_solution_f32 fp c x t)) x_test t_test;
              mse = tmean (map tsquare (map2 tsub u_pred u_exact));
              relative_error =
                tmul (tmean (map tabs (map2 tdiv (map2 tsub u_pred u_exact) u_exact))) (Fin 100)
          in Inr (mse, relative_error))"

section \<open>Gradient clipping\<close>

text \<open>
  Modelled from the spec: \<open>torch.nn.utils.clip_grad_norm_\<close> is a function of the
  PyTorch library and its code is not part of the repository. The specification gives
  the rule: if the global norm of the gradient vector exceeds the threshold, the vector
  is scaled by threshold / norm, otherwise it is left unchanged. The global norm is the
  Euclidean norm of the flattened gradient vector.
\<close>

definition total_norm :: "tval list \<Rightarrow> tval" where
  "total_norm g = tsqrt (tsum (map tsquare g))"

text \<open>The Euclidean norm of a vector of reals, to state what clipping does.\<close>

definition l2_norm :: "real list \<Rightarrow> real" where
  "l2_norm rs = sqrt (\<Sum>r\<leftarrow>rs. r ^ 2)"

definition clip_grad_norm :: "real \<Rightarrow> tval list \<Rightarrow> tval list" where
  "clip_grad_norm max_norm g =
     (if tless (Fin max_norm) (total_norm g)
      then map (tmul (tdiv (Fin max_norm) (total_norm g))) g
      else g)"

section \<open>The training loop\<close>

text \<open>
  The state the loop works on: the parameters of the model, their accumulated gradient
  (\<open>None\<close> once \<open>optimizer.zero_grad()\<close> has cleared it), the state of the optimizer,
  the two tensors of the fixed batch, and what has been printed.
\<close>

datatype message = NaN_encountered nat | Epoch_loss nat tval

record ('p, 'o) trainer =
  params :: 'p
  grad :: "tval list option"
  opt_state :: 'o
  x_train :: tensor
  t_train :: tensor
  printed :: "message list"

text \<open>
  The collaborators of the loop, which the notebook takes from the library: how the
  parameters determine the approximator (the network and its derivatives), the gradient
  of the loss with respect to the parameters that \<open>loss.backward()\<close> computes, and the
  update \<open>optimizer.step()\<close> applies.
\<close>

record ('p, 'o) backend =
  net :: "'p \<Rightarrow> approximator"
  backward :: "'p \<Rightarrow> real list \<Rightarrow> real list \<Rightarrow> tval list"
  opt_step :: "'o \<Rightarrow> 'p \<Rightarrow> tval list \<Rightarrow> 'o \<times> 'p"

text \<open>\<open>backward\<close> adds to the gradient that is there, or sets it when there is none.\<close>

fun accumulate :: "tval list option \<Rightarrow> tval list \<Rightarrow> tval list" where
  "accumulate None g = g"
| "accumulate (Some old) g = map2 tadd old g"

datatype 's outcome = Break 's | Next 's

text \<open>
  The body of the loop after the loss has been computed: the NaN check, and otherwise
  \<open>backward\<close>, clipping with \<open>max_norm = 1.0\<close>, the optimizer step and the progress line
  every 500 epochs.
\<close>

definition after_loss ::
  "('p, 'o) backend \<Rightarrow> nat \<Rightarrow> ('p, 'o) trainer \<Rightarrow> tval \<Rightarrow> ('p, 'o) trainer outcome" where
  "after_loss B epoch s loss =
     (if isnan loss then Break (s\<lparr>printed := printed s @ [NaN_encountered epoch]\<rparr>)
      else
        let g = accumulate (grad s) (backward B (params s) (vals (x_train s)) (vals (t_train s)));
            g = clip_grad_norm 1 g;
            (opt', params') = opt_step B (opt_state s) (params s) g;
            s = s\<lparr>params := params', grad := Some g, opt_state := opt'\<rparr>
        in Next (if epoch mod 500 = 0
                 then s\<lparr>printed := printed s @ [Epoch_loss epoch loss]\<rparr>
                 else s))"

text \<open>
  One pass through the body: \<open>zero_grad\<close>, the loss on the fixed batch, then the rest.
  An exception of the evaluator is not caught and ends the run.
\<close>

definition epoch_body ::
  "('p, 'o) backend \<Rightarrow> real \<Rightarrow> nat \<Rightarrow> ('p, 'o) trainer \<Rightarrow> error + ('p, 'o) trainer outcome" where
  "epoch_body B c epoch s =
     (let s = s\<lparr>grad := None\<rparr>
      in case wave_pinn_loss (net B (params s)) c (x_train s) (t_train s) of
           (Inl e, x', t') \<Rightarrow> Inl e
         | (Inr loss, x', t') \<Rightarrow>
             Inr (after_loss B epoch (s\<lparr>x_train := x', t_train := t'\<rparr>) loss))"

text \<open>\<open>for epoch in range(num_epochs)\<close>, with \<open>break\<close>.\<close>

fun for_epochs ::
  "('p, 'o) backend \<Rightarrow> real \<Rightarrow> nat list \<Rightarrow> ('p, 'o) trainer \<Rightarrow> error + ('p, 'o) trainer" where
  "for_epochs B c [] s = Inr s"
| "for_epochs B c (epoch # rest) s =
     (case epoch_body B c epoch s of
        Inl e \<Rightarrow> Inl e
      | Inr (Break s') \<Rightarrow> Inr s'
      | Inr (Next s') \<Rightarrow> for_epochs B c rest s')"

definition num_epochs :: nat where
  "num_epochs = 5000"

definition training_loop ::
  "('p, 'o) backend \<Rightarrow> real \<Rightarrow> ('p, 'o) trainer \<Rightarrow> error + ('p, 'o) trainer" where
  "training_loop B c s = for_epochs B c [0..<num_epochs] s"

text \<open>
  The loss a pass computes in state \<open>s\<close>, and the state in which the loop stops when
  the NaN check fires at \<open>epoch\<close>: the gradient cleared by \<open>zero_grad\<close>, the flags of the
  batch tensors set by the evaluator, the message printed, and nothing else changed.
\<close>

definition loss_of :: "('p, 'o) backend \<Rightarrow> real \<Rightarrow> ('p, 'o) trainer \<Rightarrow> tval" where
  "loss_of B c s = total_loss (net B (params s)) c (vals (x_train s)) (vals (t_train s))"

definition halted :: "nat \<Rightarrow> ('p, 'o) trainer \<Rightarrow> ('p, 'o) trainer" where
  "halted epoch s =
     s\<lparr>grad := None,
       x_train := (x_train s)\<lparr>requires_grad := True\<rparr>,
       t_train := (t_train s)\<lparr>requires_grad := True\<rparr>,
       printed := printed s @ [NaN_encountered epoch]\<rparr>"

text \<open>
  The call \<open>wave_pinn_loss(model, x_train, t_train)\<close> of the loop, on the whole state
  that is there when it is made: the parameters of the model and their gradient, the
  state of the optimizer, the two batch tensors and the output printed so far. The call
  reads the parameters and writes the two tensors.
\<close>

definition evaluate_in ::
  "('p, 'o) backend \<Rightarrow> real \<Rightarrow> ('p, 'o) trainer \<Rightarrow> (error + tval) \<times> ('p, 'o) trainer" where
  "evaluate_in B c s =
     (case wave_pinn_loss (net B (params s)) c (x_train s) (t_train s) of
        (r, x', t') \<Rightarrow> (r, s\<lparr>x_train := x', t_train := t'\<rparr>))"

text \<open>
  The state after a pass that takes the normal path with the given loss: the gradient
  is the clipped result of \<open>backward\<close>, the parameters and the optimizer state are those
  the step returns for it, the flags of the batch tensors are set, and the progress line
  is printed when the epoch is a multiple of 500.
\<close>

definition stepped ::
  "('p, 'o) backend \<Rightarrow> nat \<Rightarrow> tval \<Rightarrow> ('p, 'o) trainer \<Rightarrow> ('p, 'o) trainer" where
  "stepped B epoch loss s =
     (let g = clip_grad_norm 1 (backward B (params s) (vals (x_train s)) (vals (t_train s)));
          r = opt_step B (opt_state s) (params s) g
      in s\<lparr>params := snd r, grad := Some g, opt_state := fst r,
           x_train := (x_train s)\<lparr>requires_grad := True\<rparr>,
           t_train := (t_train s)\<lparr>requires_grad := True\<rparr>,
           printed := (if epoch mod 500 = 0 then printed s @ [Epoch_loss epoch loss]
                       else printed s)\<rparr>)"

text \<open>
  A run of the given epochs in which every pass takes the normal path: the state after
  the last of them, or \<open>None\<close> when some pass does not.
\<close>

fun run_normal ::
  "('p, 'o) backend \<Rightarrow> real \<Rightarrow> nat list \<Rightarrow> ('p, 'o) trainer \<Rightarrow> ('p, 'o) trainer option" where
  "run_normal B c [] s = Some s"
| "run_normal B c (epoch # rest) s =
     (case epoch_body B c epoch s of
        Inr (Next s') \<Rightarrow> run_normal B c rest s'
      | _ \<Rightarrow> None)"

text \<open>
  A small backend to run the loop on: a network whose output weights are zero, so that
  its output is its bias \<open>b\<close> and its derivatives with respect to \<open>x\<close> and \<open>t\<close> are zero.
  The bias is the one parameter; \<open>backward\<close> is the derivative of the total loss with
  respect to it, formed by the chain rule as the terms are written, and the step is
  plain gradient descent with the learning rate of the notebook, counting the steps.
\<close>

definition bias_net :: "tval \<Rightarrow> approximator" where
  "bias_net b =
     \<lparr> forward = (\<lambda>x t. b), d_dt = (\<lambda>x t. Fin 0), d2_dt2 = (\<lambda>x t. Fin 0),
       d_dx = (\<lambda>x t. Fin 0), d2_dx2 = (\<lambda>x t. Fin 0) \<rparr>"

definition bias_backend :: "(tval, nat) backend" where
  "bias_backend =
     \<lparr> net = bias_net,
       backward = (\<lambda>b xs ts.
         [tadd (tmean (map (\<lambda>x. tmul (Fin 2) (tsub b (Fin (sin (pi * x))))) xs))
               (tadd (tmean (map (\<lambda>t. tmul (Fin 2) b) ts))
                     (tmean (map (\<lambda>t. tmul (Fin 2) b) ts)))]),
       opt_step = (\<lambda>n b g.
         (Suc n, case g of [gb] \<Rightarrow> tsub b (tmul (Fin (1 / 10 ^ 4)) gb) | _ \<Rightarrow> b)) \<rparr>"

text \<open>A state to start from: a batch of one point, bias \<open>b\<close>, nothing printed.\<close>

definition start_state :: "tval \<Rightarrow> (tval, nat) trainer" where
  "start_state b =
     \<lparr> params = b, grad = None, opt_state = 0,
       x_train = \<lparr>vals = [1 / 2], requires_grad = False\<rparr>,
       t_train = \<lparr>vals = [1 / 4], requires_grad = False\<rparr>,
       printed = [] \<rparr>"

section \<open>Properties of the residual evaluator\<close>

lemma tmean_eq_mean_over:
  assumes "length vs = n" and "\<And>i. i < n \<Longrightarrow> vs ! i = f i"
  shows "tmean vs = mean_over n f"
proof -
  have "vs = map f [0..<n]"
    using assms by (intro nth_equalityI) simp_all
  then show ?thesis
    by (simp add: tmean_def mean_over_def)
qed

lemma physics_loss_spec:
  assumes "length xs = length ts"
  shows "physics_loss m c xs ts =
     mean_over (length xs) (\<lambda>i. tsquare (tsub (d2_dt2 m (xs ! i) (ts ! i))
                                              (tmul (Fin (c ^ 2)) (d2_dx2 m (xs ! i) (ts ! i)))))"
  unfolding physics_loss_def Let_def
  using assms by (intro tmean_eq_mean_over) simp_all

lemma initial_loss_spec:
  "initial_loss m xs =
     mean_over (length xs) (\<lambda>i. tsquare (tsub (forward m (xs ! i) 0) (Fin (sin (pi * xs ! i)))))"
  unfolding initial_loss_def Let_def zeros_like_def
  by (intro tmean_eq_mean_over) simp_all

lemma velocity_loss_spec:
  "velocity_loss m xs =
     mean_over (length xs) (\<lambda>i. tadd (tsquare (d_dt m (xs ! i) 0)) (Fin (1 / 10 ^ 6)))"
  unfolding velocity_loss_def Let_def zeros_like_def
  by (intro tmean_eq_mean_over) simp_all

lemma boundary_loss_spec:
  "boundary_loss m ts =
     tadd (mean_over (length ts) (\<lambda>i. tsquare (forward m 0 (ts ! i))))
          (mean_over (length ts) (\<lambda>i. tsquare (forward m 1 (ts ! i))))"
proof -
  have "tmean (map tsquare (map2 (forward m) (zeros_like ts) ts))
        = mean_over (length ts) (\<lambda>i. tsquare (forward m 0 (ts ! i)))"
    unfolding zeros_like_def by (intro tmean_eq_mean_over) simp_all
  moreover have "tmean (map tsquare (map2 (forward m) (ones_like ts) ts))
        = mean_over (length ts) (\<lambda>i. tsquare (forward m 1 (ts ! i)))"
    unfolding ones_like_def by (intro tmean_eq_mean_over) simp_all
  ultimately show ?thesis
    by (simp add: boundary_loss_def)
qed

lemma tsum_Fin: "tsum (map (\<lambda>i. Fin (g i)) is) = Fin (sum_list (map g is))"
  by (induction "is") auto

lemma mean_over_Fin:
  assumes "0 < n" and "\<And>i. i < n \<Longrightarrow> f i = Fin (g i)"
  shows "mean_over n f = Fin ((\<Sum>i<n. g i) / real n)"
proof -
  have "map f [0..<n] = map (\<lambda>i. Fin (g i)) [0..<n]"
    using assms(2) by simp
  then have "tsum (map f [0..<n]) = Fin (sum_list (map g [0..<n]))"
    by (simp only: tsum_Fin)
  moreover have "sum_list (map g [0..<n]) = (\<Sum>i<n. g i)"
    by (simp add: interv_sum_list_conv_sum_set_nat atLeast0LessThan)
  ultimately show ?thesis
    using assms(1) by (simp add: mean_over_def)
qed

lemma finite_on_nth:
  assumes "finite_on m xs ts" and "length xs = length ts" and "i < length xs"
  shows "is_fin (forward m (xs ! i) (ts ! i))" "is_fin (d_dt m (xs ! i) (ts ! i))"
    "is_fin (d2_dt2 m (xs ! i) (ts ! i))" "is_fin (d_dx m (xs ! i) (ts ! i))"
    "is_fin (d2_dx2 m (xs ! i) (ts ! i))"
    "is_fin (forward m (xs ! i) 0)" "is_fin (d_dt m (xs ! i) 0)"
    "is_fin (forward m 0 (ts ! i))" "is_fin (forward m 1 (ts ! i))"
  using assms by (auto simp: finite_on_def list_all_length)

lemma tsquare_Fin: "tsquare (Fin a) = Fin (a ^ 2)"
  by (simp add: tsquare_def power2_eq_square)

lemma tsub_Fin: "tsub (Fin a) (Fin b) = Fin (a - b)"
  by (simp add: tsub_def)

lemma sq_residual_Fin:
  "is_fin a \<Longrightarrow> is_fin b \<Longrightarrow>
     tsquare (tsub a (tmul (Fin k) b)) = Fin ((fin_val a - k * fin_val b) ^ 2)"
  by (cases a; cases b) (simp_all add: tsquare_Fin tsub_Fin)

lemma sq_diff_Fin:
  "is_fin a \<Longrightarrow> tsquare (tsub a (Fin b)) = Fin ((fin_val a - b) ^ 2)"
  by (cases a) (simp_all add: tsquare_Fin tsub_Fin)

lemma sq_plus_Fin:
  "is_fin a \<Longrightarrow> tadd (tsquare a) (Fin e) = Fin ((fin_val a) ^ 2 + e)"
  by (cases a) (simp_all add: tsquare_Fin)

lemma sq_Fin:
  "is_fin a \<Longrightarrow> tsquare a = Fin ((fin_val a) ^ 2)"
  by (cases a) (simp_all add: tsquare_Fin)

lemma composite_loss_spec_real:
  assumes fin: "finite_on m xs ts" and len: "length xs = length ts" and ne: "xs \<noteq> []"
  shows "composite_loss_spec m c xs ts = Fin (composite_loss_real m c xs ts)"
proof -
  let ?n = "length xs"
  have n: "0 < ?n" using ne by simp
  note F = finite_on_nth [OF fin len]
  have p: "mean_over ?n (\<lambda>i. tsquare (tsub (d2_dt2 m (xs ! i) (ts ! i))
              (tmul (Fin (c ^ 2)) (d2_dx2 m (xs ! i) (ts ! i)))))
        = Fin ((\<Sum>i<?n. (fin_val (d2_dt2 m (xs ! i) (ts ! i))
              - c ^ 2 * fin_val (d2_dx2 m (xs ! i) (ts ! i))) ^ 2) / real ?n)"
    by (rule mean_over_Fin [OF n]) (rule sq_residual_Fin [OF F(3) F(5)])
  have q: "mean_over ?n (\<lambda>i. tsquare (tsub (forward m (xs ! i) 0) (Fin (sin (pi * xs ! i)))))
        = Fin ((\<Sum>i<?n. (fin_val (forward m (xs ! i) 0) - sin (pi * xs ! i)) ^ 2) / real ?n)"
    by (rule mean_over_Fin [OF n]) (rule sq_diff_Fin [OF F(6)])
  have v: "mean_over ?n (\<lambda>i. tadd (tsquare (d_dt m (xs ! i) 0)) (Fin (1 / 10 ^ 6)))
        = Fin ((\<Sum>i<?n. (fin_val (d_dt m (xs ! i) 0)) ^ 2 + 1 / 10 ^ 6) / real ?n)"
    by (rule mean_over_Fin [OF n]) (rule sq_plus_Fin [OF F(7)])
  have l: "mean_over ?n (\<lambda>i. tsquare (forward m 0 (ts ! i)))
        = Fin ((\<Sum>i<?n. (fin_val (forward m 0 (ts ! i))) ^ 2) / real ?n)"
    by (rule mean_over_Fin [OF n]) (rule sq_Fin [OF F(8)])
  have r: "mean_over ?n (\<lambda>i. tsquare (forward m 1 (ts ! i)))
        = Fin ((\<Sum>i<?n. (fin_val (forward m 1 (ts ! i))) ^ 2) / real ?n)"
    by (rule mean_over_Fin [OF n]) (rule sq_Fin [OF F(9)])
  show ?thesis
    by (simp only: composite_loss_spec_def composite_loss_real_def Let_def p q v l r tadd.simps)
qed

lemma wave_pinn_loss_eq:
  "wave_pinn_loss m c x t =
     (if length (vals x) \<noteq> length (vals t) then Inl RuntimeError
      else Inr (total_loss m c (vals x) (vals t)),
      x\<lparr>requires_grad := True\<rparr>, t\<lparr>requires_grad := True\<rparr>)"
  by (simp add: wave_pinn_loss_def model_call_def)

lemma total_loss_spec:
  "length xs = length ts \<Longrightarrow> total_loss m c xs ts = composite_loss_spec m c xs ts"
  by (simp add: total_loss_def composite_loss_spec_def Let_def physics_loss_spec initial_loss_spec
      velocity_loss_spec boundary_loss_spec)

text \<open>
  C1. For every batch of equal-length \<open>x\<close> and \<open>t\<close>, \<open>wave_pinn_loss\<close> returns the
  unweighted sum of four terms: the mean over the sample points of
  \<open>(u_tt - c^2 u_xx)^2\<close>, the mean of \<open>(u(x,0) - sin(pi x))^2\<close>, the mean of
  \<open>u_t(x,0)^2 + 1e-6\<close>, and the sum of the means of \<open>u(0,t)^2\<close> and \<open>u(1,t)^2\<close>. Where the
  approximator is finite on a batch that is not empty, this is the sum of the four
  arithmetic means over the reals.
\<close>

theorem composite_loss_is_unweighted_sum:
  assumes "length (vals x) = length (vals t)"
  shows "fst (wave_pinn_loss m c x t) = Inr (composite_loss_spec m c (vals x) (vals t))
         \<and> (finite_on m (vals x) (vals t) \<and> vals x \<noteq> [] \<longrightarrow>
              fst (wave_pinn_loss m c x t) = Inr (Fin (composite_loss_real m c (vals x) (vals t))))"
  using assms
  by (simp add: wave_pinn_loss_eq total_loss_spec composite_loss_spec_real)

theorem composite_loss_is_unweighted_sum_witness:
  "length (vals \<lparr>vals = [0, 1 / 2], requires_grad = False\<rparr>)
     = length (vals \<lparr>vals = [1 / 4, 1], requires_grad = False\<rparr>)
   \<and> finite_on (bias_net (Fin 3)) [0, 1 / 2] [1 / 4, 1]
   \<and> fst (wave_pinn_loss (bias_net (Fin 3)) 1
        \<lparr>vals = [0, 1 / 2], requires_grad = False\<rparr> \<lparr>vals = [1 / 4, 1], requires_grad = False\<rparr>)
      = Inr (composite_loss_spec (bias_net (Fin 3)) 1 [0, 1 / 2] [1 / 4, 1])
   \<and> fst (wave_pinn_loss (bias_net (Fin 3)) 1
        \<lparr>vals = [0, 1 / 2], requires_grad = False\<rparr> \<lparr>vals = [1 / 4, 1], requires_grad = False\<rparr>)
      = Inr (Fin (composite_loss_real (bias_net (Fin 3)) 1 [0, 1 / 2] [1 / 4, 1]))"
proof -
  note T = composite_loss_is_unweighted_sum
      [of "\<lparr>vals = [0, 1 / 2], requires_grad = False\<rparr>"
          "\<lparr>vals = [1 / 4, 1], requires_grad = False\<rparr>" "bias_net (Fin 3)" 1]
  have f: "finite_on (bias_net (Fin 3)) [0, 1 / 2] [1 / 4, 1]"
    by (simp add: finite_on_def bias_net_def)
  have p: "fst (wave_pinn_loss (bias_net (Fin 3)) 1
        \<lparr>vals = [0, 1 / 2], requires_grad = False\<rparr> \<lparr>vals = [1 / 4, 1], requires_grad = False\<rparr>)
      = Inr (composite_loss_spec (bias_net (Fin 3)) 1 [0, 1 / 2] [1 / 4, 1])"
    using T [THEN conjunct1] by simp
  have q: "fst (wave_pinn_loss (bias_net (Fin 3)) 1
        \<lparr>vals = [0, 1 / 2], requires_grad = False\<rparr> \<lparr>vals = [1 / 4, 1], requires_grad = False\<rparr>)
      = Inr (Fin (composite_loss_real (bias_net (Fin 3)) 1 [0, 1 / 2] [1 / 4, 1]))"
    using T [THEN conjunct2] f by simp
  show ?thesis
    using f p q by (intro conjI) simp_all
qed

lemma not_below_tsquare: "not_below 0 (tsquare v)"
  by (cases v) (auto simp: tsquare_def)

lemma not_below_tadd:
  "not_below a x \<Longrightarrow> not_below b y \<Longrightarrow> not_below (a + b) (tadd x y)"
  by (cases x; cases y) auto

lemma not_below_tsum:
  "list_all (not_below lo) vs \<Longrightarrow> not_below (lo * real (length vs)) (tsum vs)"
proof (induction vs)
  case Nil
  then show ?case by simp
next
  case (Cons v vs)
  then have "not_below (lo + lo * real (length vs)) (tadd v (tsum vs))"
    by (intro not_below_tadd) simp_all
  then show ?case
    by (simp add: algebra_simps)
qed

lemma not_below_tmean:
  assumes "list_all (not_below lo) vs"
  shows "not_below lo (tmean vs)"
proof (cases "vs = []")
  case True
  then show ?thesis by (simp add: tmean_def)
next
  case False
  then have n: "0 < real (length vs)" by simp
  have s: "not_below (lo * real (length vs)) (tsum vs)"
    using assms by (rule not_below_tsum)
  show ?thesis
  proof (cases "tsum vs")
    case (Fin a)
    with s have "lo * real (length vs) \<le> a" by simp
    with n have "lo \<le> a / real (length vs)"
      by (simp add: pos_le_divide_eq)
    with Fin n show ?thesis by (simp add: tmean_def)
  next
    case PInf
    then show ?thesis by (simp add: tmean_def)
  next
    case NInf
    with s show ?thesis by simp
  next
    case NaN
    then show ?thesis by (simp add: tmean_def)
  qed
qed

lemma not_below_physics_loss: "not_below 0 (physics_loss m c xs ts)"
  unfolding physics_loss_def Let_def
  by (rule not_below_tmean) (simp add: list_all_iff not_below_tsquare)

lemma not_below_initial_loss: "not_below 0 (initial_loss m xs)"
  unfolding initial_loss_def Let_def
  by (rule not_below_tmean) (simp add: list_all_iff not_below_tsquare)

lemma not_below_velocity_loss: "not_below (1 / 10 ^ 6) (velocity_loss m xs)"
proof -
  have "not_below (0 + 1 / 10 ^ 6) (tadd (tsquare v) (Fin (1 / 10 ^ 6)))" for v
    by (intro not_below_tadd not_below_tsquare) simp
  then show ?thesis
    unfolding velocity_loss_def Let_def
    by (intro not_below_tmean) (simp add: list_all_iff)
qed

lemma not_below_boundary_loss: "not_below 0 (boundary_loss m ts)"
proof -
  have "not_below (0 + 0) (boundary_loss m ts)"
    unfolding boundary_loss_def Let_def
    by (intro not_below_tadd not_below_tmean) (simp_all add: list_all_iff not_below_tsquare)
  then show ?thesis by simp
qed

lemma not_below_total_loss: "not_below (1 / 10 ^ 6) (total_loss m c xs ts)"
proof -
  have "not_below (0 + 0 + 1 / 10 ^ 6 + 0) (total_loss m c xs ts)"
    unfolding total_loss_def
    by (intro not_below_tadd not_below_physics_loss not_below_initial_loss
        not_below_velocity_loss not_below_boundary_loss)
  then show ?thesis by simp
qed

lemma total_loss_Fin:
  assumes "finite_on m xs ts" and "length xs = length ts" and "xs \<noteq> []"
  shows "total_loss m c xs ts = Fin (composite_loss_real m c xs ts)"
  using assms by (simp add: total_loss_spec composite_loss_spec_real)

lemma velocity_loss_Fin:
  assumes "finite_on m xs ts" and "length xs = length ts" and "xs \<noteq> []"
  shows "velocity_loss m xs =
     Fin ((\<Sum>i<length xs. (fin_val (d_dt m (xs ! i) 0)) ^ 2 + 1 / 10 ^ 6) / real (length xs))"
proof -
  have n: "0 < length xs" using assms(3) by simp
  show ?thesis
    unfolding velocity_loss_spec
    by (rule mean_over_Fin [OF n]) (rule sq_plus_Fin [OF finite_on_nth(7) [OF assms(1,2)]])
qed





























text \<open>
  C6. For every approximator and batch the velocity term is never below the constant
  \<open>1e-6\<close> (it is a real that is at least \<open>1e-6\<close>, \<open>+inf\<close> or NaN), so it is never zero,
  and neither is the total loss. In exact arithmetic, that is when the batch is not
  empty and the approximator is finite on it, the velocity term and the total loss the
  evaluator returns are reals that are at least \<open>1e-6\<close>.
\<close>

theorem velocity_loss_floor:
  "not_below (1 / 10 ^ 6) (velocity_loss m (vals x))
   \<and> velocity_loss m (vals x) \<noteq> Fin 0
   \<and> not_below (1 / 10 ^ 6) (total_loss m c (vals x) (vals t))
   \<and> total_loss m c (vals x) (vals t) \<noteq> Fin 0
   \<and> (length (vals x) = length (vals t) \<and> finite_on m (vals x) (vals t) \<and> vals x \<noteq> [] \<longrightarrow>
        (\<exists>v r. velocity_loss m (vals x) = Fin v \<and> 1 / 10 ^ 6 \<le> v
             \<and> fst (wave_pinn_loss m c x t) = Inr (Fin r) \<and> 1 / 10 ^ 6 \<le> r))"
proof (intro conjI impI)
  show v: "not_below (1 / 10 ^ 6) (velocity_loss m (vals x))"
    by (rule not_below_velocity_loss)
  then show "velocity_loss m (vals x) \<noteq> Fin 0"
    by auto
  show l: "not_below (1 / 10 ^ 6) (total_loss m c (vals x) (vals t))"
    by (rule not_below_total_loss)
  then show "total_loss m c (vals x) (vals t) \<noteq> Fin 0"
    by auto
  assume h: "length (vals x) = length (vals t) \<and> finite_on m (vals x) (vals t) \<and> vals x \<noteq> []"
  then obtain a where a: "velocity_loss m (vals x) = Fin a"
    using velocity_loss_Fin [of m "vals x" "vals t"] by blast
  from h have b: "total_loss m c (vals x) (vals t) = Fin (composite_loss_real m c (vals x) (vals t))"
    by (simp add: total_loss_Fin)
  from h have w: "fst (wave_pinn_loss m c x t) = Inr (total_loss m c (vals x) (vals t))"
    by (simp add: wave_pinn_loss_eq)
  from a v have "1 / 10 ^ 6 \<le> a" by simp
  moreover from b l have "1 / 10 ^ 6 \<le> composite_loss_real m c (vals x) (vals t)" by simp
  ultimately show "\<exists>v r. velocity_loss m (vals x) = Fin v \<and> 1 / 10 ^ 6 \<le> v
             \<and> fst (wave_pinn_loss m c x t) = Inr (Fin r) \<and> 1 / 10 ^ 6 \<le> r"
    using a b w by simp
qed

theorem velocity_loss_floor_witness:
  "length (vals \<lparr>vals = [0, 1 / 2], requires_grad = False\<rparr>)
     = length (vals \<lparr>vals = [1 / 4, 1], requires_grad = False\<rparr>)
   \<and> finite_on (bias_net (Fin 3)) [0, 1 / 2] [1 / 4, 1]
   \<and> (\<exists>v r. velocity_loss (bias_net (Fin 3)) [0, 1 / 2] = Fin v \<and> 1 / 10 ^ 6 \<le> v
          \<and> fst (wave_pinn_loss (bias_net (Fin 3)) 1
               \<lparr>vals = [0, 1 / 2], requires_grad = False\<rparr>
               \<lparr>vals = [1 / 4, 1], requires_grad = False\<rparr>) = Inr (Fin r) \<and> 1 / 10 ^ 6 \<le> r)"
proof -
  have f: "finite_on (bias_net (Fin 3)) [0, 1 / 2] [1 / 4, 1]"
    by (simp add: finite_on_def bias_net_def)
  show ?thesis
    using f velocity_loss_floor
      [of "bias_net (Fin 3)" "\<lparr>vals = [0, 1 / 2], requires_grad = False\<rparr>" 1
          "\<lparr>vals = [1 / 4, 1], requires_grad = False\<rparr>"]
    by simp
qed

lemma exact_model_simps:
  "forward (exact_model c) x t = Fin (exact_solution c x t)"
  "d_dt (exact_model c) x t = Fin (- (c * pi) * sin (pi * x) * sin (c * pi * t))"
  "d2_dt2 (exact_model c) x t = Fin (- ((c * pi) ^ 2) * sin (pi * x) * cos (c * pi * t))"
  "d_dx (exact_model c) x t = Fin (pi * cos (pi * x) * cos (c * pi * t))"
  "d2_dx2 (exact_model c) x t = Fin (- (pi ^ 2) * sin (pi * x) * cos (c * pi * t))"
  by (simp_all add: exact_model_def)

lemma exact_model_derivs:
  "((\<lambda>s. exact_solution c x s) has_real_derivative (- (c * pi) * sin (pi * x) * sin (c * pi * t))) (at t)"
  "((\<lambda>s. - (c * pi) * sin (pi * x) * sin (c * pi * s)) has_real_derivative
       (- ((c * pi) ^ 2) * sin (pi * x) * cos (c * pi * t))) (at t)"
  "((\<lambda>y. exact_solution c y t) has_real_derivative (pi * cos (pi * x) * cos (c * pi * t))) (at x)"
  "((\<lambda>y. pi * cos (pi * y) * cos (c * pi * t)) has_real_derivative
       (- (pi ^ 2) * sin (pi * x) * cos (c * pi * t))) (at x)"
  unfolding exact_solution_def
  by (auto intro!: derivative_eq_intros simp: power2_eq_square)

lemma exact_pde_residual:
  "tsub (d2_dt2 (exact_model c) x t) (tmul (Fin (c ^ 2)) (d2_dx2 (exact_model c) x t)) = Fin 0"
  by (simp add: exact_model_simps tsub_Fin power2_eq_square algebra_simps)

lemma exact_initial_residual:
  "tsub (forward (exact_model c) x 0) (Fin (sin (pi * x))) = Fin 0"
  by (simp add: exact_model_simps tsub_Fin exact_solution_def)

lemma exact_velocity_residual: "d_dt (exact_model c) x 0 = Fin 0"
  by (simp add: exact_model_simps)

lemma exact_boundary:
  "forward (exact_model c) 0 t = Fin 0" "forward (exact_model c) 1 t = Fin 0"
  by (simp_all add: exact_model_simps exact_solution_def)

lemma mean_over_const:
  assumes "0 < n" and "\<And>i. i < n \<Longrightarrow> f i = Fin a"
  shows "mean_over n f = Fin a"
  using mean_over_Fin [OF assms(1), of f "\<lambda>_. a"] assms by simp

lemma exact_losses:
  assumes "length xs = length ts" and "xs \<noteq> []"
  shows "physics_loss (exact_model c) c xs ts = Fin 0"
    and "initial_loss (exact_model c) xs = Fin 0"
    and "velocity_loss (exact_model c) xs = Fin (1 / 10 ^ 6)"
    and "boundary_loss (exact_model c) ts = Fin 0"
    and "total_loss (exact_model c) c xs ts = Fin (1 / 10 ^ 6)"
proof -
  have n: "0 < length xs" "0 < length ts"
    using assms by auto
  show p: "physics_loss (exact_model c) c xs ts = Fin 0"
    unfolding physics_loss_spec [OF assms(1)]
    by (rule mean_over_const [OF n(1)]) (simp add: exact_pde_residual tsquare_Fin)
  show i: "initial_loss (exact_model c) xs = Fin 0"
    unfolding initial_loss_spec
    by (rule mean_over_const [OF n(1)]) (simp add: exact_initial_residual tsquare_Fin)
  show v: "velocity_loss (exact_model c) xs = Fin (1 / 10 ^ 6)"
    unfolding velocity_loss_spec
    by (rule mean_over_const [OF n(1)]) (simp add: exact_velocity_residual tsquare_Fin)
  have "mean_over (length ts) (\<lambda>i. tsquare (forward (exact_model c) 0 (ts ! i))) = Fin 0"
    by (rule mean_over_const [OF n(2)]) (simp add: exact_boundary tsquare_Fin)
  moreover have "mean_over (length ts) (\<lambda>i. tsquare (forward (exact_model c) 1 (ts ! i))) = Fin 0"
    by (rule mean_over_const [OF n(2)]) (simp add: exact_boundary tsquare_Fin)
  ultimately show b: "boundary_loss (exact_model c) ts = Fin 0"
    by (simp add: boundary_loss_spec)
  show "total_loss (exact_model c) c xs ts = Fin (1 / 10 ^ 6)"
    by (simp add: total_loss_def p i v b)
qed

text \<open>
  C3. With the exact solution \<open>sin(pi x) cos(c pi t)\<close> in the place of the approximator
  (its derivative fields are the partial derivatives of the exact solution), every
  residual vanishes in exact arithmetic: \<open>u_tt - c^2 u_xx\<close> is 0 at every \<open>(x, t)\<close>,
  \<open>u(x, 0) - sin(pi x)\<close> and \<open>u_t(x, 0)\<close> are 0 at every \<open>x\<close>, and \<open>u(0, t)\<close> and
  \<open>u(1, t)\<close> are 0 at every \<open>t\<close>. Hence on every batch that is not empty the physics,
  initial and boundary terms are 0, the velocity term is \<open>1e-6\<close>, and so is the loss
  the evaluator returns.
\<close>

theorem exact_solution_residuals_vanish:
  "(\<forall>x t. forward (exact_model c) x t = Fin (exact_solution c x t))
   \<and> (\<forall>x t. \<exists>a. d_dt (exact_model c) x t = Fin a
          \<and> ((\<lambda>s. exact_solution c x s) has_real_derivative a) (at t))
   \<and> (\<forall>x t. \<exists>a. d2_dt2 (exact_model c) x t = Fin a
          \<and> ((\<lambda>s. fin_val (d_dt (exact_model c) x s)) has_real_derivative a) (at t))
   \<and> (\<forall>x t. \<exists>a. d_dx (exact_model c) x t = Fin a
          \<and> ((\<lambda>y. exact_solution c y t) has_real_derivative a) (at x))
   \<and> (\<forall>x t. \<exists>a. d2_dx2 (exact_model c) x t = Fin a
          \<and> ((\<lambda>y. fin_val (d_dx (exact_model c) y t)) has_real_derivative a) (at x))
   \<and> (\<forall>x t. tsub (d2_dt2 (exact_model c) x t)
                 (tmul (Fin (c ^ 2)) (d2_dx2 (exact_model c) x t)) = Fin 0)
   \<and> (\<forall>x. tsub (forward (exact_model c) x 0) (Fin (sin (pi * x))) = Fin 0)
   \<and> (\<forall>x. d_dt (exact_model c) x 0 = Fin 0)
   \<and> (\<forall>t. forward (exact_model c) 0 t = Fin 0 \<and> forward (exact_model c) 1 t = Fin 0)
   \<and> (length (vals x) = length (vals t) \<and> vals x \<noteq> [] \<longrightarrow>
        physics_loss (exact_model c) c (vals x) (vals t) = Fin 0
        \<and> initial_loss (exact_model c) (vals x) = Fin 0
        \<and> boundary_loss (exact_model c) (vals t) = Fin 0
        \<and> velocity_loss (exact_model c) (vals x) = Fin (1 / 10 ^ 6)
        \<and> fst (wave_pinn_loss (exact_model c) c x t) = Inr (Fin (1 / 10 ^ 6)))"
proof (intro conjI allI impI)
  fix x0 t0 :: real
  show "forward (exact_model c) x0 t0 = Fin (exact_solution c x0 t0)"
    by (simp add: exact_model_simps)
  show "\<exists>a. d_dt (exact_model c) x0 t0 = Fin a
          \<and> ((\<lambda>s. exact_solution c x0 s) has_real_derivative a) (at t0)"
    using exact_model_derivs(1) [where c = c and x = x0 and t = t0]
    by (simp add: exact_model_simps)
  show "\<exists>a. d2_dt2 (exact_model c) x0 t0 = Fin a
          \<and> ((\<lambda>s. fin_val (d_dt (exact_model c) x0 s)) has_real_derivative a) (at t0)"
    using exact_model_derivs(2) [where c = c and x = x0 and t = t0]
    by (simp add: exact_model_simps)
  show "\<exists>a. d_dx (exact_model c) x0 t0 = Fin a
          \<and> ((\<lambda>y. exact_solution c y t0) has_real_derivative a) (at x0)"
    using exact_model_derivs(3) [where c = c and x = x0 and t = t0]
    by (simp add: exact_model_simps)
  show "\<exists>a. d2_dx2 (exact_model c) x0 t0 = Fin a
          \<and> ((\<lambda>y. fin_val (d_dx (exact_model c) y t0)) has_real_derivative a) (at x0)"
    using exact_model_derivs(4) [where c = c and x = x0 and t = t0]
    by (simp add: exact_model_simps)
  show "tsub (d2_dt2 (exact_model c) x0 t0)
                 (tmul (Fin (c ^ 2)) (d2_dx2 (exact_model c) x0 t0)) = Fin 0"
    by (rule exact_pde_residual)
  show "tsub (forward (exact_model c) x0 0) (Fin (sin (pi * x0))) = Fin 0"
    by (rule exact_initial_residual)
  show "d_dt (exact_model c) x0 0 = Fin 0"
    by (rule exact_velocity_residual)
  show "forward (exact_model c) 0 t0 = Fin 0" "forward (exact_model c) 1 t0 = Fin 0"
    by (rule exact_boundary)+
next
  assume h: "length (vals x) = length (vals t) \<and> vals x \<noteq> []"
  then have len: "length (vals x) = length (vals t)" and ne: "vals x \<noteq> []"
    by simp_all
  note L = exact_losses [OF len ne, of c]
  show "physics_loss (exact_model c) c (vals x) (vals t) = Fin 0" by (rule L(1))
  show "initial_loss (exact_model c) (vals x) = Fin 0" by (rule L(2))
  show "boundary_loss (exact_model c) (vals t) = Fin 0" by (rule L(4))
  show "velocity_loss (exact_model c) (vals x) = Fin (1 / 10 ^ 6)" by (rule L(3))
  show "fst (wave_pinn_loss (exact_model c) c x t) = Inr (Fin (1 / 10 ^ 6))"
    using len by (simp add: wave_pinn_loss_eq L(5))
qed

theorem exact_solution_residuals_vanish_witness:
  "length (vals \<lparr>vals = [0, 1 / 2], requires_grad = False\<rparr>)
     = length (vals \<lparr>vals = [1 / 4, 1], requires_grad = False\<rparr>)
   \<and> vals \<lparr>vals = [0, 1 / 2], requires_grad = False\<rparr> \<noteq> []
   \<and> physics_loss (exact_model 1) 1 [0, 1 / 2] [1 / 4, 1] = Fin 0
   \<and> initial_loss (exact_model 1) [0, 1 / 2] = Fin 0
   \<and> boundary_loss (exact_model 1) [1 / 4, 1] = Fin 0
   \<and> velocity_loss (exact_model 1) [0, 1 / 2] = Fin (1 / 10 ^ 6)
   \<and> fst (wave_pinn_loss (exact_model 1) 1
        \<lparr>vals = [0, 1 / 2], requires_grad = False\<rparr>
        \<lparr>vals = [1 / 4, 1], requires_grad = False\<rparr>) = Inr (Fin (1 / 10 ^ 6))"
  using exact_solution_residuals_vanish
      [of 1 "\<lparr>vals = [0, 1 / 2], requires_grad = False\<rparr>"
          "\<lparr>vals = [1 / 4, 1], requires_grad = False\<rparr>"]
  by simp

text \<open>
  C7, as the claim states it, fails: a call of \<open>wave_pinn_loss\<close> on batch tensors that do
  not yet track gradients returns them changed, with \<open>requires_grad\<close> set.
\<close>

theorem evaluator_sets_requires_grad_counterexample:
  "wave_pinn_loss (exact_model 1) 1
     \<lparr>vals = [1 / 2], requires_grad = False\<rparr> \<lparr>vals = [1 / 4], requires_grad = False\<rparr>
   = (Inr (Fin (1 / 10 ^ 6)),
      \<lparr>vals = [1 / 2], requires_grad = True\<rparr>, \<lparr>vals = [1 / 4], requires_grad = True\<rparr>)
   \<and> \<lparr>vals = [1 / 2], requires_grad = True\<rparr> \<noteq> \<lparr>vals = [1 / 2], requires_grad = False\<rparr>
   \<and> \<lparr>vals = [1 / 4], requires_grad = True\<rparr> \<noteq> \<lparr>vals = [1 / 4], requires_grad = False\<rparr>"
  by (simp add: wave_pinn_loss_eq exact_losses(5))

lemma evaluate_in_eq:
  "evaluate_in B c s =
     (if length (vals (x_train s)) \<noteq> length (vals (t_train s)) then Inl RuntimeError
      else Inr (total_loss (net B (params s)) c (vals (x_train s)) (vals (t_train s))),
      s\<lparr>x_train := (x_train s)\<lparr>requires_grad := True\<rparr>,
        t_train := (t_train s)\<lparr>requires_grad := True\<rparr>\<rparr>)"
  by (simp add: evaluate_in_def wave_pinn_loss_eq)

lemma evaluate_in_spec:
  "fst (evaluate_in B c s) =
     (if length (vals (x_train s)) \<noteq> length (vals (t_train s)) then Inl RuntimeError
      else Inr (composite_loss_spec (net B (params s)) c (vals (x_train s)) (vals (t_train s))))"
  by (simp add: evaluate_in_eq total_loss_spec)

lemma epoch_body_evaluate_in:
  "epoch_body B c epoch s =
     (case evaluate_in B c (s\<lparr>grad := None\<rparr>) of
        (Inl e, s') \<Rightarrow> Inl e
      | (Inr loss, s') \<Rightarrow> Inr (after_loss B epoch s' loss))"
  by (simp add: epoch_body_def evaluate_in_def Let_def split: prod.splits sum.splits)

text \<open>
  C7, amended. The call of \<open>wave_pinn_loss\<close> is a function of the approximator's
  current parameters and the coordinates of the batch: the loss it returns is the
  composite loss of these, so two calls with the same parameters and coordinates
  return the same loss. It leaves the parameters, their gradient, the optimizer state,
  the printed output and the coordinates of the two batch tensors unchanged. Its one
  effect is to set \<open>requires_grad\<close> on both tensors: calling it again changes nothing
  more, and it changes nothing at all when the caller has set the flags before the
  call. This is the call the loop makes after \<open>zero_grad\<close>.
\<close>

theorem evaluator_frame:
  "fst (evaluate_in B c s) =
     (if length (vals (x_train s)) \<noteq> length (vals (t_train s)) then Inl RuntimeError
      else Inr (composite_loss_spec (net B (params s)) c (vals (x_train s)) (vals (t_train s))))
   \<and> snd (evaluate_in B c s) =
       s\<lparr>x_train := (x_train s)\<lparr>requires_grad := True\<rparr>,
         t_train := (t_train s)\<lparr>requires_grad := True\<rparr>\<rparr>
   \<and> params (snd (evaluate_in B c s)) = params s
   \<and> grad (snd (evaluate_in B c s)) = grad s
   \<and> opt_state (snd (evaluate_in B c s)) = opt_state s
   \<and> printed (snd (evaluate_in B c s)) = printed s
   \<and> vals (x_train (snd (evaluate_in B c s))) = vals (x_train s)
   \<and> vals (t_train (snd (evaluate_in B c s))) = vals (t_train s)
   \<and> (params s2 = params s \<and> vals (x_train s2) = vals (x_train s)
        \<and> vals (t_train s2) = vals (t_train s) \<longrightarrow>
        fst (evaluate_in B c s2) = fst (evaluate_in B c s))
   \<and> evaluate_in B c (snd (evaluate_in B c s)) = evaluate_in B c s
   \<and> (requires_grad (x_train s) \<and> requires_grad (t_train s) \<longrightarrow> snd (evaluate_in B c s) = s)
   \<and> epoch_body B c epoch s =
       (case evaluate_in B c (s\<lparr>grad := None\<rparr>) of
          (Inl e, s') \<Rightarrow> Inl e
        | (Inr loss, s') \<Rightarrow> Inr (after_loss B epoch s' loss))"
proof (intro conjI impI)
  show "fst (evaluate_in B c s) =
     (if length (vals (x_train s)) \<noteq> length (vals (t_train s)) then Inl RuntimeError
      else Inr (composite_loss_spec (net B (params s)) c (vals (x_train s)) (vals (t_train s))))"
    by (rule evaluate_in_spec)
  show "snd (evaluate_in B c s) =
       s\<lparr>x_train := (x_train s)\<lparr>requires_grad := True\<rparr>,
         t_train := (t_train s)\<lparr>requires_grad := True\<rparr>\<rparr>"
    by (simp add: evaluate_in_eq)
  show "params (snd (evaluate_in B c s)) = params s"
    and "grad (snd (evaluate_in B c s)) = grad s"
    and "opt_state (snd (evaluate_in B c s)) = opt_state s"
    and "printed (snd (evaluate_in B c s)) = printed s"
    and "vals (x_train (snd (evaluate_in B c s))) = vals (x_train s)"
    and "vals (t_train (snd (evaluate_in B c s))) = vals (t_train s)"
    by (simp_all add: evaluate_in_eq)
  show "evaluate_in B c (snd (evaluate_in B c s)) = evaluate_in B c s"
    by (simp add: evaluate_in_eq)
  show "epoch_body B c epoch s =
       (case evaluate_in B c (s\<lparr>grad := None\<rparr>) of
          (Inl e, s') \<Rightarrow> Inl e
        | (Inr loss, s') \<Rightarrow> Inr (after_loss B epoch s' loss))"
    by (rule epoch_body_evaluate_in)
next
  assume "params s2 = params s \<and> vals (x_train s2) = vals (x_train s)
        \<and> vals (t_train s2) = vals (t_train s)"
  then show "fst (evaluate_in B c s2) = fst (evaluate_in B c s)"
    by (simp add: evaluate_in_spec)
next
  assume "requires_grad (x_train s) \<and> requires_grad (t_train s)"
  then show "snd (evaluate_in B c s) = s"
    by (simp add: evaluate_in_eq)
qed

theorem evaluator_frame_witness:
  "params ((start_state (Fin 3))\<lparr>printed := [NaN_encountered 9]\<rparr>) = params (start_state (Fin 3))
   \<and> vals (x_train ((start_state (Fin 3))\<lparr>printed := [NaN_encountered 9]\<rparr>))
       = vals (x_train (start_state (Fin 3)))
   \<and> vals (t_train ((start_state (Fin 3))\<lparr>printed := [NaN_encountered 9]\<rparr>))
       = vals (t_train (start_state (Fin 3)))
   \<and> fst (evaluate_in bias_backend 1 ((start_state (Fin 3))\<lparr>printed := [NaN_encountered 9]\<rparr>))
       = fst (evaluate_in bias_backend 1 (start_state (Fin 3)))
   \<and> requires_grad (x_train (snd (evaluate_in bias_backend 1 (start_state (Fin 3)))))
   \<and> requires_grad (t_train (snd (evaluate_in bias_backend 1 (start_state (Fin 3)))))
   \<and> snd (evaluate_in bias_backend 1 (snd (evaluate_in bias_backend 1 (start_state (Fin 3)))))
       = snd (evaluate_in bias_backend 1 (start_state (Fin 3)))"
proof -
  note T = evaluator_frame
      [where B = bias_backend and c = 1 and s = "start_state (Fin 3)"
         and ?s2.0 = "(start_state (Fin 3))\<lparr>printed := [NaN_encountered 9]\<rparr>"]
  note U = evaluator_frame
      [where B = bias_backend and c = 1
         and s = "snd (evaluate_in bias_backend 1 (start_state (Fin 3)))"]
  have a: "params ((start_state (Fin 3))\<lparr>printed := [NaN_encountered 9]\<rparr>) = params (start_state (Fin 3))"
    and b: "vals (x_train ((start_state (Fin 3))\<lparr>printed := [NaN_encountered 9]\<rparr>))
       = vals (x_train (start_state (Fin 3)))"
    and c: "vals (t_train ((start_state (Fin 3))\<lparr>printed := [NaN_encountered 9]\<rparr>))
       = vals (t_train (start_state (Fin 3)))"
    by simp_all
  have d: "requires_grad (x_train (snd (evaluate_in bias_backend 1 (start_state (Fin 3)))))"
    and e: "requires_grad (t_train (snd (evaluate_in bias_backend 1 (start_state (Fin 3)))))"
    using T by simp_all
  from T a b c have f: "fst (evaluate_in bias_backend 1 ((start_state (Fin 3))\<lparr>printed := [NaN_encountered 9]\<rparr>))
       = fst (evaluate_in bias_backend 1 (start_state (Fin 3)))"
    by blast
  from U d e have g: "snd (evaluate_in bias_backend 1 (snd (evaluate_in bias_backend 1 (start_state (Fin 3)))))
       = snd (evaluate_in bias_backend 1 (start_state (Fin 3)))"
    by blast
  from a b c f d e g show ?thesis
    by blast
qed

section \<open>Properties of the accuracy report and of clipping\<close>

lemma not_below_tabs: "not_below 0 (tabs v)"
  by (cases v) auto

lemma inf_or_nan_tadd_right: "not_below 0 x \<Longrightarrow> inf_or_nan y \<Longrightarrow> inf_or_nan (tadd x y)"
  by (cases x; cases y) auto

lemma inf_or_nan_tadd_left: "inf_or_nan x \<Longrightarrow> not_below 0 y \<Longrightarrow> inf_or_nan (tadd x y)"
  by (cases x; cases y) auto

lemma not_below_tsum0: "list_all (not_below 0) vs \<Longrightarrow> not_below 0 (tsum vs)"
  using not_below_tsum [of 0 vs] by simp

lemma inf_or_nan_tsum:
  "list_all (not_below 0) vs \<Longrightarrow> i < length vs \<Longrightarrow> inf_or_nan (vs ! i) \<Longrightarrow> inf_or_nan (tsum vs)"
proof (induction vs arbitrary: i)
  case Nil
  then show ?case by simp
next
  case (Cons v vs)
  show ?case
  proof (cases i)
    case 0
    with Cons.prems show ?thesis
      by (simp add: inf_or_nan_tadd_left not_below_tsum0)
  next
    case (Suc j)
    with Cons have "inf_or_nan (tsum vs)" by simp
    with Cons.prems show ?thesis
      by (simp add: inf_or_nan_tadd_right)
  qed
qed

lemma inf_or_nan_tmean:
  assumes "list_all (not_below 0) vs" and "i < length vs" and "inf_or_nan (vs ! i)"
  shows "inf_or_nan (tmean vs)"
proof -
  have "inf_or_nan (tsum vs)"
    using assms by (rule inf_or_nan_tsum)
  then show ?thesis
    by (cases "tsum vs") (simp_all add: tmean_def)
qed

lemma inf_or_nan_percent: "inf_or_nan v \<Longrightarrow> inf_or_nan (tmul v (Fin 100))"
  by (cases v) auto

lemma quotient_by_zero: "inf_or_nan (tabs (tdiv (tsub p (Fin 0)) (Fin 0)))"
  by (cases p) (auto simp: tsub_def)

lemma exact_solution_f32_at_0:
  assumes "rnd fp 0 = 0"
  shows "exact_solution_f32 fp c 0 t = 0"
  using assms by (simp add: exact_solution_f32_def)

lemma relative_error_at_zero:
  assumes "length x_test = length t_test" and "i < length x_test"
    and "exact_solution_f32 fp c (x_test ! i) (t_test ! i) = 0"
  shows "\<exists>mse rel. calculate_accuracy fp m c x_test t_test = Inr (mse, rel)
            \<and> \<not> is_fin rel \<and> (rel = PInf \<or> rel = NaN)"
proof -
  let ?u_pred = "map2 (forward m) x_test t_test"
  let ?u_exact = "map2 (\<lambda>x t. Fin (exact_solution_f32 fp c x t)) x_test t_test"
  let ?q = "map tabs (map2 tdiv (map2 tsub ?u_pred ?u_exact) ?u_exact)"
  have len: "i < length ?q"
    using assms by simp
  have "?q ! i = tabs (tdiv (tsub (forward m (x_test ! i) (t_test ! i)) (Fin 0)) (Fin 0))"
    using assms by simp
  then have bad: "inf_or_nan (?q ! i)"
    by (simp only: quotient_by_zero)
  have "list_all (not_below 0) ?q"
    by (simp add: list_all_iff not_below_tabs)
  then have "inf_or_nan (tmean ?q)"
    using len bad by (rule inf_or_nan_tmean)
  then have r: "inf_or_nan (tmul (tmean ?q) (Fin 100))"
    by (rule inf_or_nan_percent)
  have "calculate_accuracy fp m c x_test t_test
      = Inr (tmean (map tsquare (map2 tsub ?u_pred ?u_exact)), tmul (tmean ?q) (Fin 100))"
    using assms(1) by (simp add: calculate_accuracy_def model_call_def Let_def)
  with r show ?thesis
    by (cases "tmul (tmean ?q) (Fin 100)") simp_all
qed

text \<open>
  C9. \<open>calculate_accuracy\<close> divides the prediction error by the reference solution
  without a check, so on every test batch with a point where the reference solution
  the code computes is exactly zero the relative error it returns is not finite: it is
  \<open>+inf\<close> or NaN, whatever the model predicts. Such a point is within reach: at
  \<open>x = 0\<close> the computed reference solution is zero for every \<open>t\<close> under any rounding
  that keeps zero, so every test grid that starts at \<open>x = 0\<close>, as the grid of the
  notebook does, gives a relative error that is not finite. (At \<open>x = 1\<close> the reference
  solution is zero over the reals; the float32 computation does not return zero there,
  and nothing is stated of it.)
\<close>

theorem relative_error_not_finite:
  assumes "length x_test = length t_test" and "i < length x_test"
    and "exact_solution_f32 fp c (x_test ! i) (t_test ! i) = 0"
  shows "(\<exists>mse rel. calculate_accuracy fp m c x_test t_test = Inr (mse, rel)
            \<and> \<not> is_fin rel \<and> (rel = PInf \<or> rel = NaN))
         \<and> (rnd fp 0 = 0 \<longrightarrow> exact_solution_f32 fp c 0 t = 0)
         \<and> (rnd fp 0 = 0 \<and> length xs = length ts \<longrightarrow>
              (\<exists>mse rel. calculate_accuracy fp m c (0 # xs) (t # ts) = Inr (mse, rel)
                 \<and> \<not> is_fin rel \<and> (rel = PInf \<or> rel = NaN)))"
proof (intro conjI impI)
  show "\<exists>mse rel. calculate_accuracy fp m c x_test t_test = Inr (mse, rel)
            \<and> \<not> is_fin rel \<and> (rel = PInf \<or> rel = NaN)"
    using assms by (rule relative_error_at_zero)
next
  assume "rnd fp 0 = 0"
  then show "exact_solution_f32 fp c 0 t = 0"
    by (rule exact_solution_f32_at_0)
next
  assume h: "rnd fp 0 = 0 \<and> length xs = length ts"
  then have z: "exact_solution_f32 fp c ((0 # xs) ! 0) ((t # ts) ! 0) = 0"
    by (simp add: exact_solution_f32_at_0)
  from h have l: "length (0 # xs) = length (t # ts)" by simp
  have i: "0 < length (0 # xs)" by simp
  show "\<exists>mse rel. calculate_accuracy fp m c (0 # xs) (t # ts) = Inr (mse, rel)
                 \<and> \<not> is_fin rel \<and> (rel = PInf \<or> rel = NaN)"
    using l i z by (rule relative_error_at_zero)
qed

theorem relative_error_not_finite_witness:
  "length [0, 1 / 2, 1 :: real] = length [1 / 2, 1 / 2, 1 / 2 :: real]
   \<and> (0 :: nat) < length [0, 1 / 2, 1 :: real]
   \<and> exact_solution_f32 exact_env 1 ([0, 1 / 2, 1] ! 0) ([1 / 2, 1 / 2, 1 / 2] ! 0) = 0
   \<and> rnd exact_env 0 = 0
   \<and> length [1 / 2, 1 :: real] = length [1 / 2, 1 / 2 :: real]
   \<and> (\<exists>mse rel. calculate_accuracy exact_env (bias_net (Fin 3)) 1 [0, 1 / 2, 1] [1 / 2, 1 / 2, 1 / 2]
                   = Inr (mse, rel)
            \<and> \<not> is_fin rel \<and> (rel = PInf \<or> rel = NaN))"
proof -
  have z: "exact_solution_f32 exact_env 1 ([0, 1 / 2, 1] ! 0) ([1 / 2, 1 / 2, 1 / 2] ! 0) = 0"
    by (simp add: exact_solution_f32_def exact_env_def)
  have r: "rnd exact_env 0 = 0"
    by (simp add: exact_env_def)
  have l: "length [0, 1 / 2, 1 :: real] = length [1 / 2, 1 / 2, 1 / 2 :: real]"
    by simp
  have i: "(0 :: nat) < length [0, 1 / 2, 1 :: real]"
    by simp
  note T = relative_error_not_finite
      [OF l i z, where m = "bias_net (Fin 3)" and xs = "[1 / 2, 1]" and ts = "[1 / 2, 1 / 2]"
         and t = "1 / 2"]
  from T have "\<exists>mse rel. calculate_accuracy exact_env (bias_net (Fin 3)) 1 [0, 1 / 2, 1]
                   [1 / 2, 1 / 2, 1 / 2] = Inr (mse, rel)
            \<and> \<not> is_fin rel \<and> (rel = PInf \<or> rel = NaN)"
    by (rule conjunct1)
  with z r l i show ?thesis
    by simp
qed

lemma tsum_tsquare_Fin: "tsum (map tsquare (map Fin rs)) = Fin (\<Sum>r\<leftarrow>rs. r ^ 2)"
  by (induction rs) (simp_all add: tsquare_Fin)

lemma total_norm_Fin: "total_norm (map Fin rs) = Fin (l2_norm rs)"
proof -
  have "0 \<le> (\<Sum>r\<leftarrow>rs. r ^ 2)"
    by (rule sum_list_nonneg) auto
  moreover have "total_norm (map Fin rs) = tsqrt (Fin (\<Sum>r\<leftarrow>rs. r ^ 2))"
    by (simp only: total_norm_def tsum_tsquare_Fin)
  ultimately show ?thesis
    by (simp add: l2_norm_def)
qed

lemma l2_norm_scale: "l2_norm (map (\<lambda>r. k * r) rs) = \<bar>k\<bar> * l2_norm rs"
proof -
  have "(\<Sum>r\<leftarrow>rs. (k * r) ^ 2) = k ^ 2 * (\<Sum>r\<leftarrow>rs. r ^ 2)"
    by (simp add: power_mult_distrib sum_list_const_mult)
  then show ?thesis
    by (simp add: l2_norm_def o_def real_sqrt_mult)
qed

lemma clip_grad_norm_above:
  assumes "0 \<le> thr" and "thr < l2_norm rs"
  shows "clip_grad_norm thr (map Fin rs) = map (\<lambda>r. Fin (thr / l2_norm rs * r)) rs"
    and "total_norm (clip_grad_norm thr (map Fin rs)) = Fin thr"
proof -
  have pos: "0 < l2_norm rs" using assms by simp
  show c: "clip_grad_norm thr (map Fin rs) = map (\<lambda>r. Fin (thr / l2_norm rs * r)) rs"
    using assms pos by (simp add: clip_grad_norm_def total_norm_Fin)
  have "map (\<lambda>r. Fin (thr / l2_norm rs * r)) rs = map Fin (map (\<lambda>r. thr / l2_norm rs * r) rs)"
    by simp
  then have "total_norm (clip_grad_norm thr (map Fin rs))
      = Fin (l2_norm (map (\<lambda>r. thr / l2_norm rs * r) rs))"
    unfolding c by (simp only: total_norm_Fin)
  also have "l2_norm (map (\<lambda>r. thr / l2_norm rs * r) rs) = thr"
  proof -
    have "l2_norm (map (\<lambda>r. thr / l2_norm rs * r) rs) = \<bar>thr / l2_norm rs\<bar> * l2_norm rs"
      by (rule l2_norm_scale)
    also have "\<dots> = thr"
      using assms pos by simp
    finally show ?thesis .
  qed
  finally show "total_norm (clip_grad_norm thr (map Fin rs)) = Fin thr" .
qed

lemma clip_grad_norm_below:
  assumes "l2_norm rs \<le> thr"
  shows "clip_grad_norm thr (map Fin rs) = map Fin rs"
  using assms by (simp add: clip_grad_norm_def total_norm_Fin)

lemma after_loss_normal:
  assumes "\<not> isnan loss"
  shows "after_loss B epoch s loss =
     (let g = clip_grad_norm 1
                (accumulate (grad s) (backward B (params s) (vals (x_train s)) (vals (t_train s))));
          s' = s\<lparr>params := snd (opt_step B (opt_state s) (params s) g), grad := Some g,
                 opt_state := fst (opt_step B (opt_state s) (params s) g)\<rparr>
      in Next (if epoch mod 500 = 0
               then s'\<lparr>printed := printed s @ [Epoch_loss epoch loss]\<rparr> else s'))"
  using assms by (simp add: after_loss_def Let_def split_beta)

lemma l2_norm_3_4: "l2_norm [3, 4] = 5"
proof -
  have "l2_norm [3, 4] = sqrt (5 ^ 2)"
    by (simp add: l2_norm_def)
  then show ?thesis by simp
qed

lemma l2_norm_unit: "l2_norm [3 / 5, 4 / 5] = 1"
  by (simp add: l2_norm_def power2_eq_square)

text \<open>
  C4. The loop clips once per pass, after \<open>backward\<close> and before the optimizer step, with
  threshold 1.0: the gradient it stores and hands to the step is the clipped one. For a
  finite gradient vector whose norm exceeds the threshold, the clipped vector is the
  vector scaled by threshold / norm and its norm is the threshold; for one whose norm is
  at or below the threshold, clipping returns it unchanged.
\<close>

theorem gradient_clipping:
  assumes "0 \<le> thr"
  shows "total_norm (map Fin rs) = Fin (l2_norm rs)
     \<and> (thr < l2_norm rs \<longrightarrow>
          clip_grad_norm thr (map Fin rs) = map (\<lambda>r. Fin (thr / l2_norm rs * r)) rs
          \<and> total_norm (clip_grad_norm thr (map Fin rs)) = Fin thr)
     \<and> (l2_norm rs \<le> thr \<longrightarrow> clip_grad_norm thr (map Fin rs) = map Fin rs)
     \<and> (\<not> isnan loss \<longrightarrow>
          (\<exists>s'. after_loss B epoch s loss = Next s'
             \<and> grad s' = Some (clip_grad_norm 1 (accumulate (grad s)
                   (backward B (params s) (vals (x_train s)) (vals (t_train s)))))
             \<and> (opt_state s', params s') =
                 opt_step B (opt_state s) (params s)
                   (clip_grad_norm 1 (accumulate (grad s)
                      (backward B (params s) (vals (x_train s)) (vals (t_train s)))))))"
proof (intro conjI impI)
  show "total_norm (map Fin rs) = Fin (l2_norm rs)"
    by (rule total_norm_Fin)
next
  assume "thr < l2_norm rs"
  with assms show "clip_grad_norm thr (map Fin rs) = map (\<lambda>r. Fin (thr / l2_norm rs * r)) rs"
    and "total_norm (clip_grad_norm thr (map Fin rs)) = Fin thr"
    by (rule clip_grad_norm_above)+
next
  assume "l2_norm rs \<le> thr"
  then show "clip_grad_norm thr (map Fin rs) = map Fin rs"
    by (rule clip_grad_norm_below)
next
  assume "\<not> isnan loss"
  then show "\<exists>s'. after_loss B epoch s loss = Next s'
             \<and> grad s' = Some (clip_grad_norm 1 (accumulate (grad s)
                   (backward B (params s) (vals (x_train s)) (vals (t_train s)))))
             \<and> (opt_state s', params s') =
                 opt_step B (opt_state s) (params s)
                   (clip_grad_norm 1 (accumulate (grad s)
                      (backward B (params s) (vals (x_train s)) (vals (t_train s)))))"
    by (simp add: after_loss_normal Let_def)
qed

theorem gradient_clipping_witness:
  "(0 :: real) \<le> 1
   \<and> 1 < l2_norm [3, 4]
   \<and> clip_grad_norm 1 (map Fin [3, 4]) = map (\<lambda>r. Fin (1 / l2_norm [3, 4] * r)) [3, 4]
   \<and> total_norm (clip_grad_norm 1 (map Fin [3, 4])) = Fin 1
   \<and> l2_norm [3 / 5, 4 / 5] \<le> 1
   \<and> clip_grad_norm 1 (map Fin [3 / 5, 4 / 5]) = map Fin [3 / 5, 4 / 5]
   \<and> \<not> isnan (Fin 2)
   \<and> (\<exists>s'. after_loss bias_backend 7 (start_state (Fin 0)) (Fin 2) = Next s'
         \<and> grad s' = Some (clip_grad_norm 1 (accumulate (grad (start_state (Fin 0)))
               (backward bias_backend (params (start_state (Fin 0)))
                  (vals (x_train (start_state (Fin 0)))) (vals (t_train (start_state (Fin 0)))))))
         \<and> (opt_state s', params s') =
             opt_step bias_backend (opt_state (start_state (Fin 0))) (params (start_state (Fin 0)))
               (clip_grad_norm 1 (accumulate (grad (start_state (Fin 0)))
                  (backward bias_backend (params (start_state (Fin 0)))
                     (vals (x_train (start_state (Fin 0))))
                     (vals (t_train (start_state (Fin 0))))))))"
proof -
  have o: "(0 :: real) \<le> 1" by simp
  note A = gradient_clipping [OF o, of "[3, 4]" "Fin 2" bias_backend 7 "start_state (Fin 0)"]
  note B = gradient_clipping [OF o, of "[3 / 5, 4 / 5]" "Fin 2" bias_backend 7 "start_state (Fin 0)"]
  have a: "1 < l2_norm [3, 4]" by (simp add: l2_norm_3_4)
  have b: "l2_norm [3 / 5, 4 / 5] \<le> 1" by (simp add: l2_norm_unit)
  have n: "\<not> isnan (Fin 2)" by simp
  from A a have c1: "clip_grad_norm 1 (map Fin [3, 4]) = map (\<lambda>r. Fin (1 / l2_norm [3, 4] * r)) [3, 4]"
    and c2: "total_norm (clip_grad_norm 1 (map Fin [3, 4])) = Fin 1"
    by blast+
  from B b have c3: "clip_grad_norm 1 (map Fin [3 / 5, 4 / 5]) = map Fin [3 / 5, 4 / 5]"
    by blast
  from A n have c4: "\<exists>s'. after_loss bias_backend 7 (start_state (Fin 0)) (Fin 2) = Next s'
         \<and> grad s' = Some (clip_grad_norm 1 (accumulate (grad (start_state (Fin 0)))
               (backward bias_backend (params (start_state (Fin 0)))
                  (vals (x_train (start_state (Fin 0)))) (vals (t_train (start_state (Fin 0)))))))
         \<and> (opt_state s', params s') =
             opt_step bias_backend (opt_state (start_state (Fin 0))) (params (start_state (Fin 0)))
               (clip_grad_norm 1 (accumulate (grad (start_state (Fin 0)))
                  (backward bias_backend (params (start_state (Fin 0)))
                     (vals (x_train (start_state (Fin 0))))
                     (vals (t_train (start_state (Fin 0)))))))"
    by blast
  from o a c1 c2 b c3 n c4 show ?thesis
    by blast
qed

section \<open>Properties of the training loop\<close>

lemma epoch_body_eq:
  "epoch_body B c epoch s =
     (if length (vals (x_train s)) \<noteq> length (vals (t_train s)) then Inl RuntimeError
      else Inr (after_loss B epoch
                  (s\<lparr>grad := None,
                     x_train := (x_train s)\<lparr>requires_grad := True\<rparr>,
                     t_train := (t_train s)\<lparr>requires_grad := True\<rparr>\<rparr>)
                  (loss_of B c s)))"
  by (simp add: epoch_body_def wave_pinn_loss_eq loss_of_def)

lemma epoch_body_nan:
  assumes "length (vals (x_train s)) = length (vals (t_train s))" and "isnan (loss_of B c s)"
  shows "epoch_body B c epoch s = Inr (Break (halted epoch s))"
  using assms by (simp add: epoch_body_eq after_loss_def halted_def)

lemma epoch_body_next:
  assumes "length (vals (x_train s)) = length (vals (t_train s))" and "\<not> isnan (loss_of B c s)"
  shows "\<exists>s'. epoch_body B c epoch s = Inr (Next s')
           \<and> vals (x_train s') = vals (x_train s) \<and> vals (t_train s') = vals (t_train s)"
  using assms by (simp add: epoch_body_eq after_loss_normal Let_def)

lemma for_epochs_shape:
  assumes "length (vals (x_train s)) = length (vals (t_train s))"
  shows "\<exists>k sk. k \<le> length es \<and> run_normal B c (take k es) s = Some sk
           \<and> (k = length es \<and> for_epochs B c es s = Inr sk
               \<or> k < length es \<and> isnan (loss_of B c sk)
                   \<and> for_epochs B c es s = Inr (halted (es ! k) sk))"
  using assms
proof (induction es arbitrary: s)
  case Nil
  then show ?case by simp
next
  case (Cons e es)
  show ?case
  proof (cases "isnan (loss_of B c s)")
    case True
    have "run_normal B c (take 0 (e # es)) s = Some s" by simp
    moreover have "for_epochs B c (e # es) s = Inr (halted ((e # es) ! 0) s)"
      using epoch_body_nan [OF Cons.prems True, where epoch = e] by simp
    ultimately show ?thesis
      using True by (intro exI [of _ 0] exI [of _ s]) simp
  next
    case False
    from epoch_body_next [OF Cons.prems False, where epoch = e]
    obtain s1 where s1: "epoch_body B c e s = Inr (Next s1)"
      and v: "vals (x_train s1) = vals (x_train s)" "vals (t_train s1) = vals (t_train s)"
      by blast
    from v Cons.prems have "length (vals (x_train s1)) = length (vals (t_train s1))"
      by simp
    from Cons.IH [OF this]
    obtain k sk where k: "k \<le> length es" "run_normal B c (take k es) s1 = Some sk"
      "k = length es \<and> for_epochs B c es s1 = Inr sk
       \<or> k < length es \<and> isnan (loss_of B c sk) \<and> for_epochs B c es s1 = Inr (halted (es ! k) sk)"
      by blast
    have "run_normal B c (take (Suc k) (e # es)) s = Some sk"
      using s1 k(2) by simp
    moreover have "Suc k = length (e # es) \<and> for_epochs B c (e # es) s = Inr sk
       \<or> Suc k < length (e # es) \<and> isnan (loss_of B c sk)
           \<and> for_epochs B c (e # es) s = Inr (halted ((e # es) ! Suc k) sk)"
      using s1 k(3) by auto
    ultimately show ?thesis
      using k(1) by (intro exI [of _ "Suc k"] exI [of _ sk]) simp
  qed
qed

text \<open>
  C8. The training loop always returns, after at most \<open>num_epochs = 5000\<close> passes. On
  a batch of equal-length tensors there is a number \<open>k\<close> of passes, at most 5000, that
  took the normal path, and then either \<open>k = 5000\<close> and the loop ends with the state
  after the last pass, or \<open>k < 5000\<close>, the loss of pass \<open>k\<close> is NaN and the loop ends
  there with the state of the NaN stop. Nothing else ends the loop early. (On tensors of
  different lengths the evaluator raises in the first pass and the exception ends the
  run.)
\<close>

theorem training_loop_terminates:
  "num_epochs = 5000
   \<and> (length (vals (x_train s)) = length (vals (t_train s)) \<longrightarrow>
        (\<exists>k sk. k \<le> num_epochs \<and> run_normal B c [0..<k] s = Some sk
           \<and> (k = num_epochs \<and> training_loop B c s = Inr sk
               \<or> k < num_epochs \<and> isnan (loss_of B c sk)
                   \<and> training_loop B c s = Inr (halted k sk))))
   \<and> (length (vals (x_train s)) \<noteq> length (vals (t_train s)) \<longrightarrow>
        training_loop B c s = Inl RuntimeError)"
proof (intro conjI impI)
  show "num_epochs = 5000"
    by (simp add: num_epochs_def)
next
  assume "length (vals (x_train s)) = length (vals (t_train s))"
  from for_epochs_shape [OF this, where B = B and c = c and es = "[0..<num_epochs]"]
  have "\<exists>k sk. k \<le> num_epochs \<and> run_normal B c (take k [0..<num_epochs]) s = Some sk
     \<and> (k = num_epochs \<and> for_epochs B c [0..<num_epochs] s = Inr sk
         \<or> k < num_epochs \<and> isnan (loss_of B c sk)
             \<and> for_epochs B c [0..<num_epochs] s = Inr (halted ([0..<num_epochs] ! k) sk))"
    by simp
  then obtain k sk where k: "k \<le> num_epochs" "run_normal B c (take k [0..<num_epochs]) s = Some sk"
    "k = num_epochs \<and> for_epochs B c [0..<num_epochs] s = Inr sk
     \<or> k < num_epochs \<and> isnan (loss_of B c sk)
         \<and> for_epochs B c [0..<num_epochs] s = Inr (halted ([0..<num_epochs] ! k) sk)"
    by blast
  from k(1) have t: "take k [0..<num_epochs] = [0..<k]"
    by (simp add: take_upt)
  have "k = num_epochs \<and> training_loop B c s = Inr sk
       \<or> k < num_epochs \<and> isnan (loss_of B c sk) \<and> training_loop B c s = Inr (halted k sk)"
    using k(3) by (auto simp: training_loop_def)
  with k(1,2) t show "\<exists>k sk. k \<le> num_epochs \<and> run_normal B c [0..<k] s = Some sk
           \<and> (k = num_epochs \<and> training_loop B c s = Inr sk
               \<or> k < num_epochs \<and> isnan (loss_of B c sk)
                   \<and> training_loop B c s = Inr (halted k sk))"
    by (intro exI [of _ k] exI [of _ sk]) simp
next
  assume "length (vals (x_train s)) \<noteq> length (vals (t_train s))"
  moreover have "0 < num_epochs"
    by (simp add: num_epochs_def)
  then have "[0..<num_epochs] = 0 # [Suc 0..<num_epochs]"
    by (rule upt_conv_Cons)
  ultimately show "training_loop B c s = Inl RuntimeError"
    by (simp add: training_loop_def epoch_body_eq)
qed

theorem training_loop_terminates_witness:
  "length (vals (x_train (start_state (Fin 0)))) = length (vals (t_train (start_state (Fin 0))))
   \<and> (\<exists>k sk. k \<le> num_epochs \<and> run_normal bias_backend 1 [0..<k] (start_state (Fin 0)) = Some sk
           \<and> (k = num_epochs \<and> training_loop bias_backend 1 (start_state (Fin 0)) = Inr sk
               \<or> k < num_epochs \<and> isnan (loss_of bias_backend 1 sk)
                   \<and> training_loop bias_backend 1 (start_state (Fin 0)) = Inr (halted k sk)))
   \<and> length (vals (x_train ((start_state (Fin 0))\<lparr>t_train := \<lparr>vals = [], requires_grad = False\<rparr>\<rparr>)))
       \<noteq> length (vals (t_train ((start_state (Fin 0))\<lparr>t_train := \<lparr>vals = [], requires_grad = False\<rparr>\<rparr>)))
   \<and> training_loop bias_backend 1
        ((start_state (Fin 0))\<lparr>t_train := \<lparr>vals = [], requires_grad = False\<rparr>\<rparr>)
       = Inl RuntimeError"
proof -
  note A = training_loop_terminates [where s = "start_state (Fin 0)" and B = bias_backend and c = 1]
  note B = training_loop_terminates
      [where s = "(start_state (Fin 0))\<lparr>t_train := \<lparr>vals = [], requires_grad = False\<rparr>\<rparr>"
         and B = bias_backend and c = 1]
  have a: "length (vals (x_train (start_state (Fin 0)))) = length (vals (t_train (start_state (Fin 0))))"
    by (simp add: start_state_def)
  have b: "length (vals (x_train ((start_state (Fin 0))\<lparr>t_train := \<lparr>vals = [], requires_grad = False\<rparr>\<rparr>)))
       \<noteq> length (vals (t_train ((start_state (Fin 0))\<lparr>t_train := \<lparr>vals = [], requires_grad = False\<rparr>\<rparr>)))"
    by (simp add: start_state_def)
  from A a B b show ?thesis
    by blast
qed

lemma wave_pinn_loss_Inr:
  assumes "fst (wave_pinn_loss (net B (params s)) c (x_train s) (t_train s)) = Inr loss"
  shows "length (vals (x_train s)) = length (vals (t_train s))" and "loss = loss_of B c s"
  using assms by (simp_all add: wave_pinn_loss_eq loss_of_def split: if_splits)

lemma bias_total_loss:
  "total_loss (bias_net b) 1 [1 / 2] [1 / 4] =
     tadd (tadd (tadd (Fin 0) (tsquare (tsub b (Fin 1)))) (Fin (1 / 10 ^ 6)))
          (tadd (tsquare b) (tsquare b))"
proof -
  have d: "tdiv v (Fin 1) = v" for v
    by (cases v) simp_all
  have z: "tadd v (Fin 0) = v" for v
    by (cases v) simp_all
  show ?thesis
    by (simp add: total_loss_def physics_loss_def initial_loss_def velocity_loss_def
        boundary_loss_def bias_net_def tmean_def zeros_like_def ones_like_def d z
        tsquare_Fin tsub_Fin)
qed

lemma bias_loss_of:
  "loss_of bias_backend 1 (start_state PInf) = PInf"
  "loss_of bias_backend 1 (start_state NaN) = NaN"
  by (simp_all add: loss_of_def bias_backend_def start_state_def bias_total_loss
      tsquare_def tsub_def)

lemma bias_wave_pinn_loss:
  "fst (wave_pinn_loss (net bias_backend (params (start_state b))) 1
         (x_train (start_state b)) (t_train (start_state b)))
   = Inr (loss_of bias_backend 1 (start_state b))"
  by (simp add: wave_pinn_loss_eq loss_of_def start_state_def)

lemma bias_first_pass:
  "epoch_body bias_backend 1 0 (start_state PInf) =
     Inr (Next \<lparr> params = NaN, grad = Some [NaN], opt_state = 1,
                 x_train = \<lparr>vals = [1 / 2], requires_grad = True\<rparr>,
                 t_train = \<lparr>vals = [1 / 4], requires_grad = True\<rparr>,
                 printed = [Epoch_loss 0 PInf] \<rparr>)"
proof -
  have b: "backward bias_backend PInf [1 / 2] [1 / 4] = [PInf]"
    by (simp add: bias_backend_def tmean_def tsub_def)
  have c: "clip_grad_norm 1 [PInf] = [NaN]"
    by (simp add: clip_grad_norm_def total_norm_def tsquare_def)
  have o: "opt_step bias_backend 0 PInf [NaN] = (1, NaN)"
    by (simp add: bias_backend_def tsub_def)
  show ?thesis
    by (simp add: epoch_body_eq bias_loss_of after_loss_def)
       (simp add: start_state_def b c o)
qed

lemma bias_second_pass:
  "epoch_body bias_backend 1 1
     \<lparr> params = NaN, grad = Some [NaN], opt_state = 1,
       x_train = \<lparr>vals = [1 / 2], requires_grad = True\<rparr>,
       t_train = \<lparr>vals = [1 / 4], requires_grad = True\<rparr>,
       printed = [Epoch_loss 0 PInf] \<rparr> =
     Inr (Break \<lparr> params = NaN, grad = None, opt_state = 1,
                  x_train = \<lparr>vals = [1 / 2], requires_grad = True\<rparr>,
                  t_train = \<lparr>vals = [1 / 4], requires_grad = True\<rparr>,
                  printed = [Epoch_loss 0 PInf, NaN_encountered 1] \<rparr>)"
proof -
  have "loss_of bias_backend 1
     \<lparr> params = NaN, grad = Some [NaN], opt_state = 1 :: nat,
       x_train = \<lparr>vals = [1 / 2], requires_grad = True\<rparr>,
       t_train = \<lparr>vals = [1 / 4], requires_grad = True\<rparr>,
       printed = [Epoch_loss 0 PInf] \<rparr> = NaN"
    by (simp add: loss_of_def bias_backend_def bias_total_loss tsquare_def tsub_def)
  then show ?thesis
    by (simp add: epoch_body_nan halted_def)
qed

text \<open>
  C2, as the claim states it, fails: a loss of \<open>+inf\<close> is not a finite number, yet the
  loop does not stop there. Started with an infinite bias, the first pass computes the
  loss \<open>+inf\<close>, goes on to \<open>backward\<close>, clipping and the step, which change the
  parameter, and prints its progress line; the loop stops only in the second pass, where
  the loss is NaN.
\<close>

theorem infinite_loss_counterexample:
  "fst (wave_pinn_loss (net bias_backend (params (start_state PInf))) 1
         (x_train (start_state PInf)) (t_train (start_state PInf))) = Inr PInf
   \<and> \<not> is_fin PInf
   \<and> params (start_state PInf) = PInf
   \<and> for_epochs bias_backend 1 [0, 1] (start_state PInf) =
       Inr \<lparr> params = NaN, grad = None, opt_state = 1,
             x_train = \<lparr>vals = [1 / 2], requires_grad = True\<rparr>,
             t_train = \<lparr>vals = [1 / 4], requires_grad = True\<rparr>,
             printed = [Epoch_loss 0 PInf, NaN_encountered 1] \<rparr>"
proof (intro conjI)
  show "fst (wave_pinn_loss (net bias_backend (params (start_state PInf))) 1
         (x_train (start_state PInf)) (t_train (start_state PInf))) = Inr PInf"
    by (simp add: bias_wave_pinn_loss bias_loss_of)
  show "\<not> is_fin PInf"
    by simp
  show "params (start_state PInf) = PInf"
    by (simp add: start_state_def)
  show "for_epochs bias_backend 1 [0, 1] (start_state PInf) =
       Inr \<lparr> params = NaN, grad = None, opt_state = 1,
             x_train = \<lparr>vals = [1 / 2], requires_grad = True\<rparr>,
             t_train = \<lparr>vals = [1 / 4], requires_grad = True\<rparr>,
             printed = [Epoch_loss 0 PInf, NaN_encountered 1] \<rparr>"
    by (simp only: for_epochs.simps bias_first_pass bias_second_pass sum.case outcome.case)
qed

text \<open>
  C2, amended. If the loss computed in a pass is NaN, the loop stops in that pass: it
  prints the message that names the epoch and runs no later pass. \<open>backward\<close>, clipping
  and the optimizer step are not run in that pass, so the parameters and the optimizer
  state are those the pass began with, the gradient is as \<open>zero_grad\<close> left it, and the
  batch coordinates are unchanged.
\<close>

theorem nan_loss_halts:
  assumes "fst (wave_pinn_loss (net B (params s)) c (x_train s) (t_train s)) = Inr loss"
    and "isnan loss"
  shows "for_epochs B c (epoch # rest) s = Inr (halted epoch s)
     \<and> params (halted epoch s) = params s
     \<and> opt_state (halted epoch s) = opt_state s
     \<and> grad (halted epoch s) = None
     \<and> printed (halted epoch s) = printed s @ [NaN_encountered epoch]
     \<and> vals (x_train (halted epoch s)) = vals (x_train s)
     \<and> vals (t_train (halted epoch s)) = vals (t_train s)"
proof -
  note L = wave_pinn_loss_Inr [OF assms(1)]
  from assms(2) L(2) have "isnan (loss_of B c s)" by simp
  from epoch_body_nan [OF L(1) this, where epoch = epoch]
  have "for_epochs B c (epoch # rest) s = Inr (halted epoch s)"
    by simp
  then show ?thesis
    by (simp add: halted_def)
qed

theorem nan_loss_halts_witness:
  "fst (wave_pinn_loss (net bias_backend (params (start_state NaN))) 1
         (x_train (start_state NaN)) (t_train (start_state NaN))) = Inr NaN
   \<and> isnan NaN
   \<and> for_epochs bias_backend 1 [3, 4, 5] (start_state NaN) = Inr (halted 3 (start_state NaN))
   \<and> params (halted 3 (start_state NaN)) = params (start_state NaN)
   \<and> opt_state (halted 3 (start_state NaN)) = opt_state (start_state NaN)
   \<and> grad (halted 3 (start_state NaN)) = None
   \<and> printed (halted 3 (start_state NaN)) = printed (start_state NaN) @ [NaN_encountered 3]"
proof -
  have l: "fst (wave_pinn_loss (net bias_backend (params (start_state NaN))) 1
         (x_train (start_state NaN)) (t_train (start_state NaN))) = Inr NaN"
    by (simp add: bias_wave_pinn_loss bias_loss_of)
  have n: "isnan NaN" by simp
  from nan_loss_halts [OF l n, where epoch = 3 and rest = "[4, 5]"] l n
  show ?thesis by blast
qed

lemma epoch_body_stepped:
  assumes "length (vals (x_train s)) = length (vals (t_train s))" and "\<not> isnan (loss_of B c s)"
  shows "epoch_body B c epoch s = Inr (Next (stepped B epoch (loss_of B c s) s))"
  using assms by (simp add: epoch_body_eq after_loss_normal stepped_def Let_def)

text \<open>
  C10. The check of the loop is \<open>torch.isnan\<close>: for a loss of \<open>+inf\<close> or \<open>-inf\<close> it does
  not fire. The pass goes on as for a finite loss: it stores the clipped result of
  \<open>backward\<close> as the gradient, replaces the parameters and the optimizer state by what
  the optimizer step returns for that gradient, prints the progress line when it is due,
  and the loop continues with the next epoch from that state.
\<close>

theorem infinite_loss_passes_check:
  assumes "loss = PInf \<or> loss = NInf"
  shows "\<not> isnan loss
     \<and> (\<exists>s'. after_loss B epoch s loss = Next s'
           \<and> grad s' = Some (clip_grad_norm 1 (accumulate (grad s)
                 (backward B (params s) (vals (x_train s)) (vals (t_train s)))))
           \<and> (opt_state s', params s') =
               opt_step B (opt_state s) (params s)
                 (clip_grad_norm 1 (accumulate (grad s)
                    (backward B (params s) (vals (x_train s)) (vals (t_train s))))))
     \<and> (epoch mod 500 \<noteq> 0 \<longrightarrow> after_loss B epoch s loss = after_loss B epoch s (Fin r))
     \<and> (fst (wave_pinn_loss (net B (params s)) c (x_train s) (t_train s)) = Inr loss \<longrightarrow>
          epoch_body B c epoch s = Inr (Next (stepped B epoch loss s))
          \<and> for_epochs B c (epoch # rest) s = for_epochs B c rest (stepped B epoch loss s)
          \<and> grad (stepped B epoch loss s) =
              Some (clip_grad_norm 1 (backward B (params s) (vals (x_train s)) (vals (t_train s))))
          \<and> (opt_state (stepped B epoch loss s), params (stepped B epoch loss s)) =
              opt_step B (opt_state s) (params s)
                (clip_grad_norm 1 (backward B (params s) (vals (x_train s)) (vals (t_train s))))
          \<and> printed (stepped B epoch loss s) =
              (if epoch mod 500 = 0 then printed s @ [Epoch_loss epoch loss] else printed s)
          \<and> vals (x_train (stepped B epoch loss s)) = vals (x_train s)
          \<and> vals (t_train (stepped B epoch loss s)) = vals (t_train s))"
proof (intro conjI impI)
  show n: "\<not> isnan loss"
    using assms by auto
  then show "\<exists>s'. after_loss B epoch s loss = Next s'
           \<and> grad s' = Some (clip_grad_norm 1 (accumulate (grad s)
                 (backward B (params s) (vals (x_train s)) (vals (t_train s)))))
           \<and> (opt_state s', params s') =
               opt_step B (opt_state s) (params s)
                 (clip_grad_norm 1 (accumulate (grad s)
                    (backward B (params s) (vals (x_train s)) (vals (t_train s)))))"
    by (simp add: after_loss_normal Let_def)
  {
    assume "epoch mod 500 \<noteq> 0"
    with n show "after_loss B epoch s loss = after_loss B epoch s (Fin r)"
      by (simp add: after_loss_normal Let_def)
  }
  {
    assume w: "fst (wave_pinn_loss (net B (params s)) c (x_train s) (t_train s)) = Inr loss"
    note L = wave_pinn_loss_Inr [OF w]
    from n L(2) have "\<not> isnan (loss_of B c s)" by simp
    from epoch_body_stepped [OF L(1) this, where epoch = epoch] L(2)
    show e: "epoch_body B c epoch s = Inr (Next (stepped B epoch loss s))"
      by simp
    then show "for_epochs B c (epoch # rest) s = for_epochs B c rest (stepped B epoch loss s)"
      by simp
  }
  show "grad (stepped B epoch loss s) =
              Some (clip_grad_norm 1 (backward B (params s) (vals (x_train s)) (vals (t_train s))))"
    and "(opt_state (stepped B epoch loss s), params (stepped B epoch loss s)) =
              opt_step B (opt_state s) (params s)
                (clip_grad_norm 1 (backward B (params s) (vals (x_train s)) (vals (t_train s))))"
    and "printed (stepped B epoch loss s) =
              (if epoch mod 500 = 0 then printed s @ [Epoch_loss epoch loss] else printed s)"
    and "vals (x_train (stepped B epoch loss s)) = vals (x_train s)"
    and "vals (t_train (stepped B epoch loss s)) = vals (t_train s)"
    by (simp_all add: stepped_def Let_def)
qed

theorem infinite_loss_passes_check_witness:
  "(PInf = PInf \<or> PInf = NInf)
   \<and> (7 :: nat) mod 500 \<noteq> 0
   \<and> after_loss bias_backend 7 (start_state PInf) PInf
       = after_loss bias_backend 7 (start_state PInf) (Fin 2)
   \<and> fst (wave_pinn_loss (net bias_backend (params (start_state PInf))) 1
         (x_train (start_state PInf)) (t_train (start_state PInf))) = Inr PInf
   \<and> epoch_body bias_backend 1 7 (start_state PInf)
       = Inr (Next (stepped bias_backend 7 PInf (start_state PInf)))
   \<and> for_epochs bias_backend 1 [7, 8] (start_state PInf)
       = for_epochs bias_backend 1 [8] (stepped bias_backend 7 PInf (start_state PInf))"
proof -
  have a: "PInf = PInf \<or> PInf = NInf" by simp
  have m: "(7 :: nat) mod 500 \<noteq> 0" by simp
  have l: "fst (wave_pinn_loss (net bias_backend (params (start_state PInf))) 1
         (x_train (start_state PInf)) (t_train (start_state PInf))) = Inr PInf"
    by (simp add: bias_wave_pinn_loss bias_loss_of)
  from infinite_loss_passes_check
    [OF a, where B = bias_backend and epoch = 7 and s = "start_state PInf" and r = 2
       and c = 1 and rest = "[8]"] a m l
  show ?thesis by blast
qed

end
